theory Spec2Isabelle
  imports Complex_Main "HOL-Library.AList"
begin

section \<open>Data model (types.ts)\<close>

text \<open>
  JavaScript numbers are modelled as \<^typ>\<open>real\<close>: rounding, infinities and NaN are not part of
  the model. A division is only used in a theorem where its divisor is known not to be zero.
  Optional fields (\<^verbatim>\<open>f?: T\<close>) are \<^typ>\<open>'a option\<close>, with \<^term>\<open>None\<close> for \<^verbatim>\<open>undefined\<close>.
\<close>

datatype ModelType = CONCEPTUAL | LOGICAL | PHYSICAL | DIMENSIONAL

datatype Cardinality = ONE_TO_ONE | ONE_TO_MANY | MANY_TO_MANY

datatype LineStyle = straight | curve | step

datatype MarkerType = none | arrow | diamond_marker | circle_marker | crowfoot | one

datatype EntityShape = rectangle | circle | diamond

datatype TableType = fact | dimension | other

datatype EntityKind = entity | table | view

datatype IndexType = BTREE | HASH | BITMAP | GIN | GIST

datatype PartitionType = RANGE | LIST | HASH_PARTITION

record Attribute =
  attr_id :: string
  attr_name :: string
  dataType :: string
  dataStandard :: "string option"
  isPrimaryKey :: "bool option"
  isForeignKey :: "bool option"
  isNullable :: "bool option"
  attr_comment :: "string option"

record DbIndex =
  idx_id :: string
  idx_name :: string
  isUnique :: bool
  columns :: "string list"
  idx_type :: IndexType

record DbPartition =
  part_id :: string
  part_name :: string
  part_type :: PartitionType
  expression :: string

record EntityNode =
  ent_id :: string
  ent_name :: string
  chineseName :: "string option"
  layer :: "string option"
  subject :: "string option"
  ent_x :: real
  ent_y :: real
  ent_width :: "real option"
  ent_height :: "real option"
  attributes :: "Attribute list"
  indexes :: "DbIndex list option"
  partitions :: "DbPartition list option"
  ent_type :: EntityKind
  tableType :: "TableType option"
  shape :: "EntityShape option"
  color :: "string option"
  collapsed :: "bool option"
  showFullAttributes :: "bool option"

record Relationship =
  rel_id :: string
  sourceId :: string
  targetId :: string
  cardinality :: Cardinality
  rel_label :: "string option"
  lineStyle :: LineStyle
  sourceMarker :: "MarkerType option"
  targetMarker :: "MarkerType option"

section \<open>Geometry (Canvas.tsx)\<close>

record Rect =
  rx :: real
  ry :: real
  rw :: real
  rh :: real

text \<open>JavaScript truthiness of an optional number and of an optional boolean.\<close>

definition truthy_num :: "real option \<Rightarrow> bool" where
  "truthy_num v = (case v of None \<Rightarrow> False | Some n \<Rightarrow> n \<noteq> 0)"

definition truthy_bool :: "bool option \<Rightarrow> bool" where
  "truthy_bool v = (case v of None \<Rightarrow> False | Some b \<Rightarrow> b)"

definition HEADER_HEIGHT :: real where "HEADER_HEIGHT = 44"
definition ROW_HEIGHT :: real where "ROW_HEIGHT = 24"
definition FOOTER_HEIGHT :: real where "FOOTER_HEIGHT = 24"

text \<open>
  \<^verbatim>\<open>getEntityRect\<close> reads the component's \<^verbatim>\<open>modelType\<close> prop and \<^verbatim>\<open>searchTerm\<close> state;
  they are its first two arguments here. The three \<^verbatim>\<open>if\<close> statements that assign
  \<^verbatim>\<open>visibleAttrsCount\<close> and \<^verbatim>\<open>hasFooter\<close> run in the source's order.
\<close>

definition getEntityRect :: "ModelType \<Rightarrow> string \<Rightarrow> EntityNode \<Rightarrow> Rect" where
  "getEntityRect modelType searchTerm node =
    (if truthy_num (ent_width node) \<and> truthy_num (ent_height node)
     then \<lparr>rx = ent_x node, ry = ent_y node, rw = the (ent_width node), rh = the (ent_height node)\<rparr>
     else if modelType = CONCEPTUAL
     then \<lparr>rx = ent_x node, ry = ent_y node, rw = 160, rh = 100\<rparr>
     else
       let n = length (attributes node);
           isFiltering = (length searchTerm > 0);
           st0 = (n, False);
           st1 = (if \<not> isFiltering \<and> truthy_bool (collapsed node) \<and> n > 5 then (5, True) else st0);
           st2 = (if \<not> isFiltering \<and> \<not> truthy_bool (collapsed node) \<and> n > 5
                  then (fst st1, True) else st1);
           st3 = (if isFiltering then (n, False) else st2);
           visibleAttrsCount = fst st3;
           hasFooter = snd st3;
           height = HEADER_HEIGHT + (real visibleAttrsCount * ROW_HEIGHT)
                    + (if hasFooter then FOOTER_HEIGHT else 4)
       in \<lparr>rx = ent_x node, ry = ent_y node, rw = 256, rh = height\<rparr>)"

section \<open>Component state (Canvas.tsx)\<close>

datatype InteractionMode = select | pan

datatype DragType = drag_entity | drag_pan | drag_selection | drag_resize

record Point =
  pt_x :: real
  pt_y :: real

record SelectionBox =
  startX :: real
  startY :: real
  currentX :: real
  currentY :: real

record DragState =
  ds_type :: DragType
  startMouseX :: real
  startMouseY :: real
  initialPositions :: "(string \<times> Point) list option"
  startOffset :: "Point option"
  entityId :: "string option"
  startW :: "real option"
  startH :: "real option"

text \<open>
  \<^verbatim>\<open>dragUpdates\<close> has type \<^verbatim>\<open>Record<string, Partial<EntityNode>>\<close>. The component only ever stores
  \<^verbatim>\<open>{x, y}\<close> (entity drag) or \<^verbatim>\<open>{width, height}\<close> (resize) in it, so a partial entity is a record
  of these four optional fields. \<^verbatim>\<open>{ ...e, ...patch }\<close> overrides the fields the patch has.
\<close>

record EntityPatch =
  patch_x :: "real option"
  patch_y :: "real option"
  patch_width :: "real option"
  patch_height :: "real option"

definition spread :: "EntityNode \<Rightarrow> EntityPatch \<Rightarrow> EntityNode" where
  "spread e p = e\<lparr>
     ent_x := (case patch_x p of Some v \<Rightarrow> v | None \<Rightarrow> ent_x e),
     ent_y := (case patch_y p of Some v \<Rightarrow> v | None \<Rightarrow> ent_y e),
     ent_width := (case patch_width p of Some v \<Rightarrow> Some v | None \<Rightarrow> ent_width e),
     ent_height := (case patch_height p of Some v \<Rightarrow> Some v | None \<Rightarrow> ent_height e)\<rparr>"

record ContextMenu =
  cm_x :: real
  cm_y :: real
  cm_entityId :: "string option"

record Size =
  sz_width :: real
  sz_height :: real

text \<open>
  The host (App.tsx) passes \<^verbatim>\<open>onEntitiesChange = ents => updateSelectedModel({ entities: ents })\<close>
  and \<^verbatim>\<open>onRelationshipsChange = rels => updateSelectedModel({ relationships: rels })\<close>;
  \<^verbatim>\<open>updateSelectedModel\<close> replaces the named collection of the selected model
  (\<^verbatim>\<open>{ ...currentModel, ...updates }\<close>). Only the two collections of \<^verbatim>\<open>DataModel\<close> matter here.
\<close>

record DataModel =
  dm_entities :: "EntityNode list"
  dm_relationships :: "Relationship list"

datatype ModelUpdate = EntitiesUpdate "EntityNode list" | RelationshipsUpdate "Relationship list"

fun updateSelectedModel :: "ModelUpdate \<Rightarrow> DataModel \<Rightarrow> DataModel" where
  "updateSelectedModel (EntitiesUpdate ents) m = m\<lparr>dm_entities := ents\<rparr>"
| "updateSelectedModel (RelationshipsUpdate rels) m = m\<lparr>dm_relationships := rels\<rparr>"

text \<open>
  The props the component reads (\<^verbatim>\<open>modelType\<close>, \<^verbatim>\<open>entities\<close>, \<^verbatim>\<open>relationships\<close>, \<^verbatim>\<open>readOnly\<close>), its
  \<^verbatim>\<open>useState\<close> cells, the log of the commits it has sent to the host (oldest first) and the number
  of calls to \<^verbatim>\<open>generateId\<close> made so far.
\<close>

record Canvas =
  modelType :: ModelType
  entities :: "EntityNode list"
  relationships :: "Relationship list"
  readOnly :: bool
  commits :: "ModelUpdate list"
  nextId :: nat
  interactionMode :: InteractionMode
  selectedEntityIds :: "string set"
  selectedRelId :: "string option"
  showGrid :: bool
  dragUpdates :: "(string \<times> EntityPatch) list"
  dragState :: "DragState option"
  selectionBox :: "SelectionBox option"
  offset :: Point
  zoom :: real
  viewportSize :: Size
  connectingSource :: "string option"
  loadingSuggestion :: "string option"
  clipboard :: "EntityNode list option"
  contextMenu :: "ContextMenu option"
  searchTerm :: string
  isSpacePressed :: bool

text \<open>
  A prop callback sends one commit; the host then re-renders the component with the new collection
  as its prop.
\<close>

definition onEntitiesChange :: "EntityNode list \<Rightarrow> Canvas \<Rightarrow> Canvas" where
  "onEntitiesChange ents c = c\<lparr>entities := ents, commits := commits c @ [EntitiesUpdate ents]\<rparr>"

definition onRelationshipsChange :: "Relationship list \<Rightarrow> Canvas \<Rightarrow> Canvas" where
  "onRelationshipsChange rels c =
     c\<lparr>relationships := rels, commits := commits c @ [RelationshipsUpdate rels]\<rparr>"

section \<open>Delete handlers\<close>

text \<open>
  A handler reads the props and state of the render that created it (first argument, \<open>c\<close>) and
  applies its setter calls and prop callbacks, in the source's order, to the pending state
  (second argument). An event that calls the handler directly runs it as \<open>h c c\<close>.
\<close>

definition handleDeleteSelectedEntities :: "Canvas \<Rightarrow> Canvas \<Rightarrow> Canvas" where
  "handleDeleteSelectedEntities c pending =
    (if readOnly c then pending
     else if selectedEntityIds c = {} then pending
     else
       let newEntities = filter (\<lambda>e. ent_id e \<notin> selectedEntityIds c) (entities c);
           newRelationships = filter (\<lambda>r. sourceId r \<notin> selectedEntityIds c
                                          \<and> targetId r \<notin> selectedEntityIds c) (relationships c)
       in (onEntitiesChange newEntities (onRelationshipsChange newRelationships pending))
            \<lparr>selectedEntityIds := {}\<rparr>)"

definition handleDeleteRel :: "string \<Rightarrow> Canvas \<Rightarrow> Canvas \<Rightarrow> Canvas" where
  "handleDeleteRel i c pending =
    (let p1 = onRelationshipsChange (filter (\<lambda>r. rel_id r \<noteq> i) (relationships c)) pending
     in if selectedRelId c = Some i then p1\<lparr>selectedRelId := None\<rparr> else p1)"

section \<open>Events and identifiers\<close>

record Modifiers =
  ctrlKey :: bool
  metaKey :: bool
  shiftKey :: bool

record MouseEvent = Modifiers +
  button :: nat
  clientX :: real
  clientY :: real

record WheelEvent = MouseEvent +
  deltaX :: real
  deltaY :: real

text \<open>
  A keyboard event, together with what the handler reads from the document when it fires:
  \<^verbatim>\<open>document.activeElement?.tagName\<close>.
\<close>

record KeyboardEvent = Modifiers +
  code :: string
  key :: string
  repeat :: bool
  activeElementTagName :: "string option"

text \<open>\<^verbatim>\<open>canvasRef.current?.getBoundingClientRect()\<close>: absent while the element is not mounted.\<close>

record ClientRect =
  rect_left :: real
  rect_top :: real

text \<open>
  \<^verbatim>\<open>generateId\<close> draws from \<^verbatim>\<open>crypto.randomUUID\<close> or \<^verbatim>\<open>Math.random\<close>. The random source is a
  parameter \<open>gen\<close> of the handlers that call it: the \<open>k\<close>-th call of a session returns \<open>gen k\<close>,
  and the state counts the calls made so far in \<^const>\<open>nextId\<close>.
\<close>

type_synonym IdSource = "nat \<Rightarrow> string"

definition generateId :: "IdSource \<Rightarrow> nat \<Rightarrow> string \<times> nat" where
  "generateId gen k = (gen k, Suc k)"

section \<open>Viewport\<close>

text \<open>
  Screen to world, as written inline in \<^verbatim>\<open>handleMouseDown\<close> and \<^verbatim>\<open>handleMouseMove\<close>:
  \<^verbatim>\<open>(e.clientX - rect.left - offset.x) / zoom\<close>, for a point already relative to the canvas.
\<close>

definition screenToWorld :: "Canvas \<Rightarrow> Point \<Rightarrow> Point" where
  "screenToWorld c p = \<lparr>pt_x = (pt_x p - pt_x (offset c)) / zoom c,
                         pt_y = (pt_y p - pt_y (offset c)) / zoom c\<rparr>"

definition handleWheel :: "ClientRect option \<Rightarrow> WheelEvent \<Rightarrow> Canvas \<Rightarrow> Canvas" where
  "handleWheel rect e c =
    (case rect of
       None \<Rightarrow> c
     | Some r \<Rightarrow>
        if ctrlKey e \<or> metaKey e \<or> interactionMode c = pan
        then
          let mouseX = clientX e - rect_left r;
              mouseY = clientY e - rect_top r;
              sensitivity = 0.001;
              delta = - deltaY e;
              scaleFactor = (1 + sensitivity) powr delta;
              nextZoom = max 0.1 (min 5 (zoom c * scaleFactor));
              scaleRatio = nextZoom / zoom c;
              newOffset = \<lparr>pt_x = mouseX - (mouseX - pt_x (offset c)) * scaleRatio,
                           pt_y = mouseY - (mouseY - pt_y (offset c)) * scaleRatio\<rparr>
          in c\<lparr>zoom := nextZoom, offset := newOffset\<rparr>
        else
          c\<lparr>offset := \<lparr>pt_x = pt_x (offset c) - deltaX e, pt_y = pt_y (offset c) - deltaY e\<rparr>\<rparr>)"

text \<open>The two toolbar buttons: \<^verbatim>\<open>setZoom(z => Math.min(z + 0.1, 2))\<close> and
  \<^verbatim>\<open>setZoom(z => Math.max(z - 0.1, 0.5))\<close>.\<close>

definition toolbarZoomIn :: "Canvas \<Rightarrow> Canvas" where
  "toolbarZoomIn c = c\<lparr>zoom := min (zoom c + 0.1) 2\<rparr>"

definition toolbarZoomOut :: "Canvas \<Rightarrow> Canvas" where
  "toolbarZoomOut c = c\<lparr>zoom := max (zoom c - 0.1) 0.5\<rparr>"

section \<open>Keyboard handler: copy, paste, delete, select all\<close>

text \<open>
  The paste loop: each clipboard item takes one identifier for itself and then one for each of
  its attributes, in order. \<open>cloneItem gen k item\<close> is the clone made when \<open>k\<close> calls to
  \<^verbatim>\<open>generateId\<close> have been made before it.
\<close>

definition cloneItem :: "IdSource \<Rightarrow> nat \<Rightarrow> EntityNode \<Rightarrow> EntityNode" where
  "cloneItem gen k item =
     (let (newId, k1) = generateId gen k
      in item\<lparr>ent_id := newId,
               ent_x := ent_x item + 20,
               ent_y := ent_y item + 20,
               ent_name := ent_name item @ ''_copy'',
               attributes := map (\<lambda>(a, j). a\<lparr>attr_id := fst (generateId gen j)\<rparr>)
                                 (zip (attributes item) [k1 ..< k1 + length (attributes item)])\<rparr>)"

fun pasteClones :: "IdSource \<Rightarrow> nat \<Rightarrow> EntityNode list \<Rightarrow> EntityNode list" where
  "pasteClones gen k [] = []"
| "pasteClones gen k (item # items) =
     cloneItem gen k item # pasteClones gen (Suc k + length (attributes item)) items"

fun idsUsed :: "EntityNode list \<Rightarrow> nat" where
  "idsUsed [] = 0"
| "idsUsed (item # items) = Suc (length (attributes item)) + idsUsed items"

definition handleKeyDown :: "IdSource \<Rightarrow> KeyboardEvent \<Rightarrow> Canvas \<Rightarrow> Canvas" where
  "handleKeyDown gen e c =
    (let notInput = (activeElementTagName e \<noteq> Some ''INPUT'');
         p1 = (if code e = ''Space'' \<and> \<not> repeat e then c\<lparr>isSpacePressed := True\<rparr> else c);
         p2 = (if key e = ''v'' \<and> \<not> ctrlKey e \<and> \<not> metaKey e \<and> notInput
               then p1\<lparr>interactionMode := select\<rparr> else p1);
         p3 = (if key e = ''h'' \<and> \<not> ctrlKey e \<and> \<not> metaKey e \<and> notInput
               then p2\<lparr>interactionMode := pan\<rparr> else p2)
     in if readOnly c then p3
        else
          let p4 = (if (ctrlKey e \<or> metaKey e) \<and> key e = ''c''
                    then (let selected = filter (\<lambda>ent. ent_id ent \<in> selectedEntityIds c) (entities c)
                          in if length selected > 0 then p3\<lparr>clipboard := Some selected\<rparr> else p3)
                    else p3);
              p5 = (case clipboard c of
                      Some items \<Rightarrow>
                        if (ctrlKey e \<or> metaKey e) \<and> key e = ''v'' \<and> length items > 0
                        then
                          let newEntities = pasteClones gen (nextId c) items
                          in (onEntitiesChange (entities c @ newEntities)
                                (p4\<lparr>selectedEntityIds := {}\<rparr>))
                               \<lparr>selectedEntityIds := set (map ent_id newEntities),
                                nextId := nextId c + idsUsed items\<rparr>
                        else p4
                    | None \<Rightarrow> p4)
          in if key e = ''Delete'' \<or> key e = ''Backspace''
             then
               if \<not> notInput then p5
               else
                 let p6 = (if selectedEntityIds c \<noteq> {} then handleDeleteSelectedEntities c p5
                           else (case selectedRelId c of
                                   Some rid \<Rightarrow> if rid \<noteq> [] then handleDeleteRel rid c p5 else p5
                                 | None \<Rightarrow> p5))
                 in if (ctrlKey e \<or> metaKey e) \<and> key e = ''a''
                    then p6\<lparr>selectedEntityIds := set (map ent_id (entities c))\<rparr> else p6
             else
               if (ctrlKey e \<or> metaKey e) \<and> key e = ''a''
               then p5\<lparr>selectedEntityIds := set (map ent_id (entities c))\<rparr> else p5)"

definition handleKeyUp :: "KeyboardEvent \<Rightarrow> Canvas \<Rightarrow> Canvas" where
  "handleKeyUp e c =
    (if code e = ''Space''
     then (case dragState c of
             Some ds \<Rightarrow> if ds_type ds = drag_pan
                        then c\<lparr>isSpacePressed := False, dragState := None\<rparr>
                        else c\<lparr>isSpacePressed := False\<rparr>
           | None \<Rightarrow> c\<lparr>isSpacePressed := False\<rparr>)
     else c)"

section \<open>Pointer handlers\<close>

definition handleMouseDown :: "ClientRect option \<Rightarrow> MouseEvent \<Rightarrow> Canvas \<Rightarrow> Canvas" where
  "handleMouseDown rect e c =
    (let isLeftClick = (button e = 0);
         isMiddleClick = (button e = 1);
         p0 = (if isLeftClick \<or> isMiddleClick then c\<lparr>contextMenu := None\<rparr> else c)
     in if isMiddleClick \<or> (isLeftClick \<and> (isSpacePressed c \<or> interactionMode c = pan))
        then p0\<lparr>dragState := Some \<lparr>ds_type = drag_pan,
                     startMouseX = clientX e, startMouseY = clientY e,
                     initialPositions = None, startOffset = Some (offset c),
                     entityId = None, startW = None, startH = None\<rparr>\<rparr>
        else if \<not> isLeftClick then p0
        else if readOnly c then p0
        else
          let p1 = (if \<not> shiftKey e \<and> \<not> ctrlKey e \<and> \<not> metaKey e
                    then p0\<lparr>selectedEntityIds := {}, selectedRelId := None\<rparr> else p0);
              p2 = p1\<lparr>dragState := Some \<lparr>ds_type = drag_selection,
                          startMouseX = clientX e, startMouseY = clientY e,
                          initialPositions = None, startOffset = None,
                          entityId = None, startW = None, startH = None\<rparr>\<rparr>
          in (case rect of
                None \<Rightarrow> p2
              | Some r \<Rightarrow>
                  let w = screenToWorld c \<lparr>pt_x = clientX e - rect_left r,
                                           pt_y = clientY e - rect_top r\<rparr>
                  in p2\<lparr>selectionBox := Some \<lparr>startX = pt_x w, startY = pt_y w,
                                                currentX = pt_x w, currentY = pt_y w\<rparr>\<rparr>))"

text \<open>
  The selection a press on entity \<open>i\<close> leaves: toggled with a modifier key, the singleton for an
  unselected entity, unchanged for a selected one.
\<close>

definition clickSelection :: "MouseEvent \<Rightarrow> string \<Rightarrow> string set \<Rightarrow> string set" where
  "clickSelection e i sel =
    (if shiftKey e \<or> ctrlKey e \<or> metaKey e
     then (if i \<in> sel then sel - {i} else insert i sel)
     else (if i \<notin> sel then {i} else sel))"

text \<open>
  An object used as a dictionary (\<^verbatim>\<open>Record<string, T>\<close>) is the list of its own entries; the handlers
  only look keys up, so the order of the entries is not observed. Assigning to a key replaces its
  value or adds an entry, with one exception: \<^verbatim>\<open>obj['__proto__'] = {...}\<close> runs the setter
  inherited from \<^verbatim>\<open>Object.prototype\<close>, which replaces the prototype of \<^verbatim>\<open>obj\<close> and adds no entry.
  \<^verbatim>\<open>nodesToDrag.forEach(n => { initialPos[n.id] = { x: n.x, y: n.y } })\<close>:
\<close>

definition assignKey :: "string \<Rightarrow> 'v \<Rightarrow> (string \<times> 'v) list \<Rightarrow> (string \<times> 'v) list" where
  "assignKey k v obj = (if k = ''__proto__'' then obj else AList.update k v obj)"

definition capturePositions :: "EntityNode list \<Rightarrow> (string \<times> Point) list" where
  "capturePositions nodesToDrag =
     foldl (\<lambda>m n. assignKey (ent_id n) \<lparr>pt_x = ent_x n, pt_y = ent_y n\<rparr> m) [] nodesToDrag"

definition handleEntityMouseDown :: "IdSource \<Rightarrow> MouseEvent \<Rightarrow> string \<Rightarrow> Canvas \<Rightarrow> Canvas" where
  "handleEntityMouseDown gen e i c =
    (if readOnly c then c
     else
       let isPanMode = (interactionMode c = pan \<or> isSpacePressed c);
           connecting = (case connectingSource c of Some src \<Rightarrow> src \<noteq> [] | None \<Rightarrow> False)
       in if connecting
          then
            if connectingSource c \<noteq> Some i
            then
              let (newId, k1) = generateId gen (nextId c);
                  newRel = \<lparr>rel_id = newId, sourceId = the (connectingSource c), targetId = i,
                            cardinality = ONE_TO_MANY, rel_label = None, lineStyle = step,
                            sourceMarker = Some one, targetMarker = Some crowfoot\<rparr>
              in (onRelationshipsChange (relationships c @ [newRel]) c)
                   \<lparr>connectingSource := None, nextId := k1\<rparr>
            else c
          else
            let newSelection = clickSelection e i (selectedEntityIds c);
                p1 = c\<lparr>selectedEntityIds := newSelection\<rparr>;
                p2 = (if \<not> isPanMode
                      then
                        let nodesToDrag = filter (\<lambda>ent. ent_id ent \<in> newSelection) (entities c);
                            initialPos = capturePositions nodesToDrag
                        in p1\<lparr>dragState := Some \<lparr>ds_type = drag_entity,
                                   startMouseX = clientX e, startMouseY = clientY e,
                                   initialPositions = Some initialPos, startOffset = None,
                                   entityId = None, startW = None, startH = None\<rparr>\<rparr>
                      else p1)
            in p2\<lparr>selectedRelId := None, contextMenu := None\<rparr>)"

definition handleResizeMouseDown :: "MouseEvent \<Rightarrow> string \<Rightarrow> Canvas \<Rightarrow> Canvas" where
  "handleResizeMouseDown e i c =
    (if interactionMode c = pan \<or> isSpacePressed c then c
     else
       case find (\<lambda>en. ent_id en = i) (entities c) of
         None \<Rightarrow> c
       | Some ent \<Rightarrow>
           let rect = getEntityRect (modelType c) (searchTerm c) ent
           in c\<lparr>dragState := Some \<lparr>ds_type = drag_resize,
                    startMouseX = clientX e, startMouseY = clientY e,
                    initialPositions = None, startOffset = None,
                    entityId = Some i, startW = Some (rw rect), startH = Some (rh rect)\<rparr>\<rparr>)"

text \<open>\<^verbatim>\<open>dragState.startW || 0\<close>: an absent or zero number reads as 0.\<close>

definition orZero :: "real option \<Rightarrow> real" where
  "orZero v = (case v of None \<Rightarrow> 0 | Some n \<Rightarrow> n)"

text \<open>
  \<^verbatim>\<open>handleMouseMove\<close> schedules its body with \<^verbatim>\<open>requestAnimationFrame\<close>, cancelling the frame
  still pending. The function below is that body, run for the event \<open>e\<close>; which move events get
  their frame is outside the model. The entity branch assigns one entry of \<^verbatim>\<open>updates\<close> for each
  key in \<^verbatim>\<open>Object.keys(dragState.initialPositions)\<close>, own keys that are distinct and never
  \<^verbatim>\<open>__proto__\<close>. The resize branch builds \<^verbatim>\<open>{ [dragState.entityId]: {...} }\<close>; a computed key of an
  object literal always defines an own entry.
\<close>

definition handleMouseMove :: "ClientRect option \<Rightarrow> MouseEvent \<Rightarrow> Canvas \<Rightarrow> Canvas" where
  "handleMouseMove rect e c =
    (case dragState c of
       None \<Rightarrow> c
     | Some ds \<Rightarrow>
        (case (if ds_type ds = drag_pan then startOffset ds else None) of
           Some so \<Rightarrow>
             c\<lparr>offset := \<lparr>pt_x = pt_x so + (clientX e - startMouseX ds),
                           pt_y = pt_y so + (clientY e - startMouseY ds)\<rparr>\<rparr>
         | None \<Rightarrow>
             if readOnly c then c
             else
               let dX = (clientX e - startMouseX ds) / zoom c;
                   dY = (clientY e - startMouseY ds) / zoom c
               in (case (if ds_type ds = drag_entity then initialPositions ds else None) of
                     Some initial \<Rightarrow>
                       c\<lparr>dragUpdates :=
                            map (\<lambda>(i, init). (i, \<lparr>patch_x = Some (pt_x init + dX),
                                                   patch_y = Some (pt_y init + dY),
                                                   patch_width = None, patch_height = None\<rparr>))
                                initial\<rparr>
                   | None \<Rightarrow>
                       (case (if ds_type ds = drag_resize \<and> entityId ds \<noteq> Some []
                              then entityId ds else None) of
                          Some eid \<Rightarrow>
                            let newW = max 150 (orZero (startW ds) + dX);
                                newH = max 80 (orZero (startH ds) + dY)
                            in c\<lparr>dragUpdates := [(eid, \<lparr>patch_x = None, patch_y = None,
                                     patch_width = Some newW, patch_height = Some newH\<rparr>)]\<rparr>
                        | None \<Rightarrow>
                            if ds_type ds = drag_selection \<and> selectionBox c \<noteq> None
                            then (case rect of
                                    None \<Rightarrow> c
                                  | Some r \<Rightarrow>
                                      let w = screenToWorld c \<lparr>pt_x = clientX e - rect_left r,
                                                               pt_y = clientY e - rect_top r\<rparr>
                                      in c\<lparr>selectionBox := map_option
                                            (\<lambda>prev. prev\<lparr>currentX := pt_x w, currentY := pt_y w\<rparr>)
                                            (selectionBox c)\<rparr>)
                            else c))))"

text \<open>
  The intersection test of the marquee, \<^verbatim>\<open>isOverlapping\<close> in \<^verbatim>\<open>handleMouseUp\<close>. The handler also
  cancels the move frame still pending, if any: a move whose frame has not run by the release has
  no effect. In the commit, \<^verbatim>\<open>dragUpdates[e.id]\<close> for an id that is no own key but a property
  inherited from \<^verbatim>\<open>Object.prototype\<close> (\<^verbatim>\<open>constructor\<close>, \<^verbatim>\<open>__proto__\<close>, ...) reads a function or the
  prototype, whose spread adds no field: the entity is committed unchanged, as for a missing key.
\<close>

definition isOverlapping :: "SelectionBox \<Rightarrow> Rect \<Rightarrow> bool" where
  "isOverlapping box rect =
    (let x1 = min (startX box) (currentX box);
         y1 = min (startY box) (currentY box);
         x2 = max (startX box) (currentX box);
         y2 = max (startY box) (currentY box);
         entRight = rx rect + rw rect;
         entBottom = ry rect + rh rect
     in \<not> (rx rect > x2 \<or> entRight < x1 \<or> ry rect > y2 \<or> entBottom < y1))"

definition handleMouseUp :: "Canvas \<Rightarrow> Canvas" where
  "handleMouseUp c =
    (let isDrag = (case dragState c of
                     Some ds \<Rightarrow> ds_type ds = drag_entity \<or> ds_type ds = drag_resize
                   | None \<Rightarrow> False);
         p1 = (if isDrag \<and> dragUpdates c \<noteq> []
               then
                 let newEntities = map (\<lambda>e. case map_of (dragUpdates c) (ent_id e) of
                                               Some p \<Rightarrow> spread e p
                                             | None \<Rightarrow> e) (entities c)
                 in (onEntitiesChange newEntities c)\<lparr>dragUpdates := []\<rparr>
               else c);
         isSelection = (case dragState c of
                          Some ds \<Rightarrow> ds_type ds = drag_selection
                        | None \<Rightarrow> False);
         p2 = (case (if isSelection then selectionBox c else None) of
                 Some box \<Rightarrow>
                   let newSelected =
                         foldl (\<lambda>acc ent.
                                  if isOverlapping box
                                       (getEntityRect (modelType c) (searchTerm c) ent)
                                  then insert (ent_id ent) acc else acc)
                               (selectedEntityIds c) (entities c)
                   in p1\<lparr>selectedEntityIds := newSelected\<rparr>
               | None \<Rightarrow> p1)
     in p2\<lparr>dragState := None, selectionBox := None\<rparr>)"

section \<open>Initial state and the seeded model\<close>

text \<open>The component's state right after mounting: the initial value of every \<^verbatim>\<open>useState\<close>.\<close>

definition initialCanvas ::
    "ModelType \<Rightarrow> EntityNode list \<Rightarrow> Relationship list \<Rightarrow> bool \<Rightarrow> Canvas" where
  "initialCanvas mt ents rels ro =
     \<lparr>modelType = mt, entities = ents, relationships = rels, readOnly = ro,
      commits = [], nextId = 0,
      interactionMode = select, selectedEntityIds = {}, selectedRelId = None,
      showGrid = True, dragUpdates = [], dragState = None, selectionBox = None,
      offset = \<lparr>pt_x = 0, pt_y = 0\<rparr>, zoom = 1,
      viewportSize = \<lparr>sz_width = 0, sz_height = 0\<rparr>,
      connectingSource = None, loadingSuggestion = None, clipboard = None,
      contextMenu = None, searchTerm = [], isSpacePressed = False\<rparr>"

text \<open>
  The model ``E-Commerce Core'' that the mock service seeds (\<^verbatim>\<open>MOCK_MODELS[0]\<close>): entity \<^verbatim>\<open>e1\<close>
  ``User'' at (100, 100), entity \<^verbatim>\<open>e2\<close> ``Order'' at (500, 150), relationship \<^verbatim>\<open>r1\<close> from \<^verbatim>\<open>e1\<close> to
  \<^verbatim>\<open>e2\<close>. The Chinese display names are left out. It is the concrete input of the examples below.
\<close>

definition mockAttr :: "string \<Rightarrow> string \<Rightarrow> string \<Rightarrow> bool option \<Rightarrow> bool option \<Rightarrow> Attribute" where
  "mockAttr i n t pk nullable =
     \<lparr>attr_id = i, attr_name = n, dataType = t, dataStandard = None, isPrimaryKey = pk,
      isForeignKey = None, isNullable = nullable, attr_comment = None\<rparr>"

definition mockE1 :: EntityNode where
  "mockE1 = \<lparr>ent_id = ''e1'', ent_name = ''User'', chineseName = None, layer = Some ''ODS'',
      subject = Some ''Customer'', ent_x = 100, ent_y = 100, ent_width = None, ent_height = None,
      attributes = [mockAttr ''a1'' ''email'' ''String'' (Some True) (Some False)],
      indexes = None, partitions = None, ent_type = entity, tableType = None, shape = None,
      color = None, collapsed = Some False, showFullAttributes = None\<rparr>"

definition mockE2 :: EntityNode where
  "mockE2 = \<lparr>ent_id = ''e2'', ent_name = ''Order'', chineseName = None, layer = Some ''DWD'',
      subject = Some ''Order'', ent_x = 500, ent_y = 150, ent_width = None, ent_height = None,
      attributes = [mockAttr ''a2'' ''order_id'' ''UUID'' (Some True) (Some False),
                    mockAttr ''a3'' ''total'' ''Money'' None (Some True)],
      indexes = None, partitions = None, ent_type = entity, tableType = None, shape = None,
      color = None, collapsed = Some False, showFullAttributes = None\<rparr>"

definition mockR1 :: Relationship where
  "mockR1 = \<lparr>rel_id = ''r1'', sourceId = ''e1'', targetId = ''e2'', cardinality = ONE_TO_MANY,
      rel_label = None, lineStyle = step, sourceMarker = Some one,
      targetMarker = Some crowfoot\<rparr>"

definition mockCanvas :: Canvas where
  "mockCanvas = initialCanvas LOGICAL [mockE1, mockE2] [mockR1] False"

text \<open>
  The model ``Business Concept'' (\<^verbatim>\<open>MOCK_MODELS[1]\<close>), a conceptual model: entities \<^verbatim>\<open>c1\<close>, \<^verbatim>\<open>c2\<close>,
  \<^verbatim>\<open>c3\<close> at (150, 100), (450, 100) and (750, 100), without attributes.
\<close>

definition mockConcept :: "string \<Rightarrow> string \<Rightarrow> EntityShape \<Rightarrow> real \<Rightarrow> EntityNode" where
  "mockConcept i n sh px = \<lparr>ent_id = i, ent_name = n, chineseName = None, layer = None,
      subject = None, ent_x = px, ent_y = 100, ent_width = None, ent_height = None,
      attributes = [], indexes = None, partitions = None, ent_type = entity, tableType = None,
      shape = Some sh, color = None, collapsed = None, showFullAttributes = None\<rparr>"

definition mockC1 :: EntityNode where
  "mockC1 = mockConcept ''c1'' ''Customer'' circle 150"

definition mockC2 :: EntityNode where
  "mockC2 = mockConcept ''c2'' ''Purchase'' diamond 450"

definition mockC3 :: EntityNode where
  "mockC3 = mockConcept ''c3'' ''Product'' rectangle 750"

definition conceptCanvas :: Canvas where
  "conceptCanvas = initialCanvas CONCEPTUAL [mockC1, mockC2, mockC3] [] False"

text \<open>The canvas element at the top left corner of the page.\<close>

definition originRect :: ClientRect where
  "originRect = \<lparr>rect_left = 0, rect_top = 0\<rparr>"

definition mouseAt :: "real \<Rightarrow> real \<Rightarrow> bool \<Rightarrow> MouseEvent" where
  "mouseAt px py shift = \<lparr>ctrlKey = False, metaKey = False, shiftKey = shift,
      button = 0, clientX = px, clientY = py\<rparr>"

definition ctrlMouseAt :: "real \<Rightarrow> real \<Rightarrow> MouseEvent" where
  "ctrlMouseAt px py = \<lparr>ctrlKey = True, metaKey = False, shiftKey = False,
      button = 0, clientX = px, clientY = py\<rparr>"

definition ctrlWheel :: "real \<Rightarrow> real \<Rightarrow> real \<Rightarrow> WheelEvent" where
  "ctrlWheel px py dy = \<lparr>ctrlKey = True, metaKey = False, shiftKey = False,
      button = 0, clientX = px, clientY = py, deltaX = 0, deltaY = dy\<rparr>"

definition ctrlKeyPress :: "string \<Rightarrow> KeyboardEvent" where
  "ctrlKeyPress k = \<lparr>ctrlKey = True, metaKey = False, shiftKey = False,
      code = ''Key'', key = k, repeat = False, activeElementTagName = Some ''BODY''\<rparr>"

text \<open>An identifier source for the examples: the \<open>k\<close>-th identifier is \<^verbatim>\<open>n\<close> followed by \<open>k\<close>
  times \<^verbatim>\<open>x\<close>.\<close>

definition exampleIds :: IdSource where
  "exampleIds k = CHR ''n'' # replicate k (CHR ''x'')"

text \<open>A source that returns the same identifier at every call.\<close>

definition stuckIds :: IdSource where
  "stuckIds k = ''n''"

section \<open>The handlers as one transition function\<close>

text \<open>
  The events the component reacts to that are modelled here, and the handler each one runs. The
  handlers left out (context menu, adding an entity, colour and shape, collapsing, the minimap's
  view change) do not write the zoom factor.
\<close>

datatype Event =
    KeyDown KeyboardEvent
  | KeyUp KeyboardEvent
  | Wheel "ClientRect option" WheelEvent
  | MouseDown "ClientRect option" MouseEvent
  | EntityMouseDown MouseEvent string
  | ResizeMouseDown MouseEvent string
  | MouseMove "ClientRect option" MouseEvent
  | MouseUp
  | ZoomInClick
  | ZoomOutClick
  | DeleteSelectedClick
  | DeleteRelClick string

fun dispatch :: "IdSource \<Rightarrow> Canvas \<Rightarrow> Event \<Rightarrow> Canvas" where
  "dispatch gen c (KeyDown e) = handleKeyDown gen e c"
| "dispatch gen c (KeyUp e) = handleKeyUp e c"
| "dispatch gen c (Wheel rect e) = handleWheel rect e c"
| "dispatch gen c (MouseDown rect e) = handleMouseDown rect e c"
| "dispatch gen c (EntityMouseDown e i) = handleEntityMouseDown gen e i c"
| "dispatch gen c (ResizeMouseDown e i) = handleResizeMouseDown e i c"
| "dispatch gen c (MouseMove rect e) = handleMouseMove rect e c"
| "dispatch gen c MouseUp = handleMouseUp c"
| "dispatch gen c ZoomInClick = toolbarZoomIn c"
| "dispatch gen c ZoomOutClick = toolbarZoomOut c"
| "dispatch gen c DeleteSelectedClick = handleDeleteSelectedEntities c c"
| "dispatch gen c (DeleteRelClick i) = handleDeleteRel i c c"

definition run :: "IdSource \<Rightarrow> Canvas \<Rightarrow> Event list \<Rightarrow> Canvas" where
  "run gen c evs = foldl (dispatch gen) c evs"

section \<open>Example gestures on the seeded model\<close>

text \<open>Entity \<^verbatim>\<open>e1\<close> selected, ready to be deleted.\<close>

definition deleteExample :: Canvas where
  "deleteExample = mockCanvas\<lparr>selectedEntityIds := {''e1''}\<rparr>"

text \<open>On the conceptual model, with \<^verbatim>\<open>c3\<close> selected before: a marquee dragged with Shift held from
  (100, 50) to (200, 150), over the corner of \<^verbatim>\<open>c1\<close> only; the pointer is still down.\<close>

definition marqueeExample :: Canvas where
  "marqueeExample = run exampleIds (conceptCanvas\<lparr>selectedEntityIds := {''c3''}\<rparr>)
     [MouseDown (Some originRect) (mouseAt 100 50 True),
      MouseMove (Some originRect) (mouseAt 200 150 True)]"

text \<open>The resize handle of \<^verbatim>\<open>e1\<close> pressed at (356, 172), moved over (300, 170) to (180, 162) and
  released.\<close>

definition resizeExample :: Canvas where
  "resizeExample = run exampleIds mockCanvas
     [ResizeMouseDown (mouseAt 356 172 False) ''e1'',
      MouseMove (Some originRect) (mouseAt 300 170 False),
      MouseMove (Some originRect) (mouseAt 180 162 False),
      MouseUp]"

text \<open>Both entities selected; \<^verbatim>\<open>e1\<close> pressed at (120, 130) without a modifier key, moved over
  (140, 125) to (170, 110) and released.\<close>

definition multiDragExample :: Canvas where
  "multiDragExample = run exampleIds (mockCanvas\<lparr>selectedEntityIds := {''e1'', ''e2''}\<rparr>)
     [EntityMouseDown (mouseAt 120 130 False) ''e1'',
      MouseMove (Some originRect) (mouseAt 140 125 False),
      MouseMove (Some originRect) (mouseAt 170 110 False),
      MouseUp]"

text \<open>The same gesture with Ctrl held at the press.\<close>

definition toggleDragExample :: Canvas where
  "toggleDragExample = run exampleIds (mockCanvas\<lparr>selectedEntityIds := {''e1'', ''e2''}\<rparr>)
     [EntityMouseDown (ctrlMouseAt 120 130) ''e1'',
      MouseMove (Some originRect) (mouseAt 140 125 False),
      MouseMove (Some originRect) (mouseAt 170 110 False),
      MouseUp]"

text \<open>Both entities selected and copied with Ctrl+C.\<close>

definition copyExample :: Canvas where
  "copyExample = run exampleIds (mockCanvas\<lparr>selectedEntityIds := {''e1'', ''e2''}\<rparr>)
     [KeyDown (ctrlKeyPress ''c'')]"

section \<open>Auxiliary notions for the statements\<close>

text \<open>The identifiers an entity carries: its own, then those of its attributes.\<close>

definition idsOf :: "EntityNode \<Rightarrow> string list" where
  "idsOf e = ent_id e # map attr_id (attributes e)"

definition posOf :: "EntityNode \<Rightarrow> string \<times> Point" where
  "posOf n = (ent_id n, \<lparr>pt_x = ent_x n, pt_y = ent_y n\<rparr>)"

section \<open>Facts about the seeded model\<close>

lemma mock_ids: "ent_id mockE1 = ''e1''" "ent_id mockE2 = ''e2''"
  "sourceId mockR1 = ''e1''" "targetId mockR1 = ''e2''" "rel_id mockR1 = ''r1''"
  by (simp_all add: mockE1_def mockE2_def mockR1_def)

lemma deleteExample_fields:
  "readOnly deleteExample = False" "selectedEntityIds deleteExample = {''e1''}"
  "entities deleteExample = [mockE1, mockE2]" "relationships deleteExample = [mockR1]"
  "commits deleteExample = []"
  by (simp_all add: deleteExample_def mockCanvas_def initialCanvas_def)

lemma mock_boxes:
  "getEntityRect LOGICAL [] mockE1 = \<lparr>rx = 100, ry = 100, rw = 256, rh = 72\<rparr>"
  "getEntityRect LOGICAL [] mockE2 = \<lparr>rx = 500, ry = 150, rw = 256, rh = 96\<rparr>"
  by (simp_all add: getEntityRect_def mockE1_def mockE2_def truthy_num_def truthy_bool_def
        HEADER_HEIGHT_def ROW_HEIGHT_def FOOTER_HEIGHT_def mockAttr_def)

lemma concept_boxes:
  "getEntityRect CONCEPTUAL [] mockC1 = \<lparr>rx = 150, ry = 100, rw = 160, rh = 100\<rparr>"
  "getEntityRect CONCEPTUAL [] mockC2 = \<lparr>rx = 450, ry = 100, rw = 160, rh = 100\<rparr>"
  "getEntityRect CONCEPTUAL [] mockC3 = \<lparr>rx = 750, ry = 100, rw = 160, rh = 100\<rparr>"
  by (simp_all add: getEntityRect_def mockC1_def mockC2_def mockC3_def mockConcept_def
        truthy_num_def)

lemma concept_ids: "ent_id mockC1 = ''c1''" "ent_id mockC2 = ''c2''" "ent_id mockC3 = ''c3''"
  by (simp_all add: mockC1_def mockC2_def mockC3_def mockConcept_def)

lemma marqueeExample_state:
  "dragState marqueeExample = Some \<lparr>ds_type = drag_selection, startMouseX = 100, startMouseY = 50,
       initialPositions = None, startOffset = None, entityId = None, startW = None, startH = None\<rparr>"
  "selectionBox marqueeExample = Some \<lparr>startX = 100, startY = 50, currentX = 200, currentY = 150\<rparr>"
  "selectedEntityIds marqueeExample = {''c3''}"
  "entities marqueeExample = [mockC1, mockC2, mockC3]"
  "modelType marqueeExample = CONCEPTUAL" "searchTerm marqueeExample = []"
  by (simp_all add: marqueeExample_def run_def conceptCanvas_def initialCanvas_def mouseAt_def
        originRect_def handleMouseDown_def handleMouseMove_def screenToWorld_def Let_def)

lemma mockCanvas_fields:
  "readOnly mockCanvas = False" "interactionMode mockCanvas = select"
  "isSpacePressed mockCanvas = False" "connectingSource mockCanvas = None"
  "entities mockCanvas = [mockE1, mockE2]" "zoom mockCanvas = 1"
  "selectedEntityIds mockCanvas = {}" "modelType mockCanvas = LOGICAL"
  "searchTerm mockCanvas = []" "commits mockCanvas = []" "nextId mockCanvas = 0"
  by (simp_all add: mockCanvas_def initialCanvas_def)

lemma mock_positions:
  "ent_x mockE1 = 100" "ent_y mockE1 = 100" "ent_x mockE2 = 500" "ent_y mockE2 = 150"
  "ent_width mockE1 = None" "ent_height mockE1 = None"
  "ent_width mockE2 = None" "ent_height mockE2 = None"
  by (simp_all add: mockE1_def mockE2_def)

lemma copyExample_state:
  "clipboard copyExample = Some [mockE1, mockE2]"
  "readOnly copyExample = False" "entities copyExample = [mockE1, mockE2]"
  "nextId copyExample = 0" "commits copyExample = []"
  by (simp_all add: copyExample_def run_def handleKeyDown_def ctrlKeyPress_def Let_def
        mockCanvas_def initialCanvas_def mock_ids)

lemma example_ids_fresh:
  "map exampleIds [0 ..< 0 + idsUsed [mockE1, mockE2]] = [''n'', ''nx'', ''nxx'', ''nxxx'', ''nxxxx'']"
  by (simp add: exampleIds_def mockE1_def mockE2_def upt_rec numeral_eq_Suc)

section \<open>Bounding box of an expanded entity\<close>

text \<open>
  C8. A non-conceptual entity without an explicit size (width and height not both set and
  non-zero), with exactly 8 attributes, the collapsed flag false or absent and an empty search
  term has a box of height 44 + 8 * 24 + 24 = 260: all eight rows and the footer are counted.
\<close>

theorem C8_expanded_height:
  assumes "mt \<noteq> CONCEPTUAL"
      and "\<not> (truthy_num (ent_width node) \<and> truthy_num (ent_height node))"
      and "length (attributes node) = 8"
      and "\<not> truthy_bool (collapsed node)"
      and "search = []"
  shows "rh (getEntityRect mt search node) = HEADER_HEIGHT + 8 * ROW_HEIGHT + FOOTER_HEIGHT
       \<and> rh (getEntityRect mt search node) = 260
       \<and> rw (getEntityRect mt search node) = 256"
  using assms
  by (auto simp add: getEntityRect_def HEADER_HEIGHT_def ROW_HEIGHT_def FOOTER_HEIGHT_def)

theorem C8_expanded_height_witness:
  "LOGICAL \<noteq> CONCEPTUAL
   \<and> \<not> (truthy_num (ent_width (mockE1\<lparr>attributes := replicate 8 (mockAttr ''a1'' ''email'' ''String'' None None)\<rparr>))
        \<and> truthy_num (ent_height (mockE1\<lparr>attributes := replicate 8 (mockAttr ''a1'' ''email'' ''String'' None None)\<rparr>)))
   \<and> length (attributes (mockE1\<lparr>attributes := replicate 8 (mockAttr ''a1'' ''email'' ''String'' None None)\<rparr>)) = 8
   \<and> \<not> truthy_bool (collapsed (mockE1\<lparr>attributes := replicate 8 (mockAttr ''a1'' ''email'' ''String'' None None)\<rparr>))
   \<and> rh (getEntityRect LOGICAL []
          (mockE1\<lparr>attributes := replicate 8 (mockAttr ''a1'' ''email'' ''String'' None None)\<rparr>)) = 260"
proof -
  let ?e = "mockE1\<lparr>attributes := replicate 8 (mockAttr ''a1'' ''email'' ''String'' None None)\<rparr>"
  have h1: "LOGICAL \<noteq> CONCEPTUAL" by simp
  have h2: "\<not> (truthy_num (ent_width ?e) \<and> truthy_num (ent_height ?e))"
    by (simp add: mockE1_def truthy_num_def)
  have h3: "length (attributes ?e) = 8" by simp
  have h4: "\<not> truthy_bool (collapsed ?e)" by (simp add: mockE1_def truthy_bool_def)
  show ?thesis
    using h1 h2 h3 h4 C8_expanded_height[OF h1 h2 h3 h4 refl] by simp
qed

section \<open>The zoom factor in every reachable state\<close>

text \<open>
  Only the wheel handler and the two toolbar buttons write the zoom factor. From the initial zoom 1
  every sequence of events keeps it in [0.1, 5]; in particular it is never zero, so the divisions
  by the zoom in the handlers are divisions by a positive number.
\<close>

lemma zoom_handleKeyDown: "zoom (handleKeyDown gen e c) = zoom c"
  by (simp add: handleKeyDown_def Let_def onEntitiesChange_def onRelationshipsChange_def
        handleDeleteSelectedEntities_def handleDeleteRel_def split: option.splits)

lemma zoom_pointer_handlers:
  "zoom (handleKeyUp ke c) = zoom c"
  "zoom (handleMouseDown rect e c) = zoom c"
  "zoom (handleEntityMouseDown gen e i c) = zoom c"
  "zoom (handleResizeMouseDown e i c) = zoom c"
  "zoom (handleMouseMove rect e c) = zoom c"
  "zoom (handleMouseUp c) = zoom c"
  "zoom (handleDeleteSelectedEntities c c) = zoom c"
  "zoom (handleDeleteRel i c c) = zoom c"
  by (simp_all add: handleKeyUp_def handleMouseDown_def handleEntityMouseDown_def
        handleResizeMouseDown_def handleMouseMove_def handleMouseUp_def generateId_def
        handleDeleteSelectedEntities_def handleDeleteRel_def
        Let_def onEntitiesChange_def onRelationshipsChange_def split: option.splits)

lemma zoom_handleWheel: "0.1 \<le> zoom c \<Longrightarrow> zoom c \<le> 5 \<Longrightarrow>
    0.1 \<le> zoom (handleWheel rect e c) \<and> zoom (handleWheel rect e c) \<le> 5"
  by (auto simp add: handleWheel_def Let_def max_def min_def split: option.splits)

lemma dispatch_zoom_range:
  assumes "0.1 \<le> zoom c" and "zoom c \<le> 5"
  shows "0.1 \<le> zoom (dispatch gen c ev) \<and> zoom (dispatch gen c ev) \<le> 5"
  using assms zoom_handleWheel
  by (cases ev) (auto simp add: zoom_handleKeyDown zoom_pointer_handlers
       toolbarZoomIn_def toolbarZoomOut_def max_def min_def)

lemma run_zoom_range:
  assumes "0.1 \<le> zoom c" and "zoom c \<le> 5"
  shows "0.1 \<le> zoom (run gen c evs) \<and> zoom (run gen c evs) \<le> 5"
  using assms unfolding run_def
proof (induction evs arbitrary: c)
  case Nil
  then show ?case by simp
next
  case (Cons ev evs)
  then show ?case using dispatch_zoom_range[of c gen ev] by simp
qed

lemma reachable_zoom_range:
  "0.1 \<le> zoom (run gen (initialCanvas mt ents rels ro) evs)
   \<and> zoom (run gen (initialCanvas mt ents rels ro) evs) \<le> 5
   \<and> zoom (run gen (initialCanvas mt ents rels ro) evs) \<noteq> 0"
  using run_zoom_range[of "initialCanvas mt ents rels ro" gen evs]
  by (simp add: initialCanvas_def)

section \<open>Anchor-preserving zoom\<close>

lemma nextZoom_pos: "(0::real) < max 0.1 (min 5 z)"
  by simp

text \<open>
  C1. A wheel event that zooms (Ctrl or Meta held, or the pan tool active) leaves the world
  point under the pointer where it was: the world coordinate of the pointer's screen position,
  \<open>(screen - offset) / zoom\<close>, is the same before and after. Over the reals the two are equal, so
  they differ by less than any epsilon. The zoom of the state must not be zero; it never is,
  see \<open>reachable_zoom_range\<close> above.
\<close>

theorem C1_zoom_anchor_preserving:
  assumes "zoom c \<noteq> 0"
      and "ctrlKey e \<or> metaKey e \<or> interactionMode c = pan"
      and "m = \<lparr>pt_x = clientX e - rect_left r, pt_y = clientY e - rect_top r\<rparr>"
  shows "screenToWorld (handleWheel (Some r) e c) m = screenToWorld c m"
proof -
  define nz where "nz = max 0.1 (min 5 (zoom c * (1 + 0.001) powr (- deltaY e)))"
  have nz: "nz \<noteq> 0"
    unfolding nz_def using nextZoom_pos[of "zoom c * (1 + 0.001) powr (- deltaY e)"] by simp
  have w: "handleWheel (Some r) e c = c\<lparr>zoom := nz,
      offset := \<lparr>pt_x = pt_x m - (pt_x m - pt_x (offset c)) * (nz / zoom c),
                  pt_y = pt_y m - (pt_y m - pt_y (offset c)) * (nz / zoom c)\<rparr>\<rparr>"
    using assms(2,3) by (simp add: handleWheel_def Let_def nz_def)
  show ?thesis
    unfolding w screenToWorld_def using nz assms(1) by (simp add: field_simps)
qed

theorem C1_zoom_anchor_preserving_witness:
  "zoom mockCanvas \<noteq> 0
   \<and> ctrlKey (ctrlWheel 300 200 (- 2))
   \<and> zoom (handleWheel (Some originRect) (ctrlWheel 300 200 (- 2)) mockCanvas) = 1.002001
   \<and> screenToWorld (handleWheel (Some originRect) (ctrlWheel 300 200 (- 2)) mockCanvas)
        \<lparr>pt_x = 300, pt_y = 200\<rparr>
      = screenToWorld mockCanvas \<lparr>pt_x = 300, pt_y = 200\<rparr>"
proof -
  have h1: "zoom mockCanvas \<noteq> 0"
    by (simp add: mockCanvas_def initialCanvas_def)
  have h2: "ctrlKey (ctrlWheel 300 200 (- 2)) \<or> metaKey (ctrlWheel 300 200 (- 2))
              \<or> interactionMode mockCanvas = pan"
    by (simp add: ctrlWheel_def)
  have h3: "\<lparr>pt_x = 300, pt_y = 200\<rparr>
              = \<lparr>pt_x = clientX (ctrlWheel 300 200 (- 2)) - rect_left originRect,
                 pt_y = clientY (ctrlWheel 300 200 (- 2)) - rect_top originRect\<rparr>"
    by (simp add: ctrlWheel_def originRect_def)
  have z: "zoom (handleWheel (Some originRect) (ctrlWheel 300 200 (- 2)) mockCanvas) = 1.002001"
    by (simp add: handleWheel_def ctrlWheel_def mockCanvas_def initialCanvas_def Let_def
          power2_eq_square)
  show ?thesis
    using h1 z C1_zoom_anchor_preserving[OF h1 h2 h3] by (simp add: ctrlWheel_def)
qed

section \<open>Zoom ranges\<close>

text \<open>
  C9, amended. After a wheel zoom the zoom factor lies in [0.1, 5]. The zoom-in button never
  leaves a zoom above 2 and the zoom-out button never one below 0.5; each button clamps on its own
  side only, so the result lies in [0.5, 2] when the zoom before the click is at least 0.4
  (zoom in) or at most 2.1 (zoom out), in particular whenever it was in [0.5, 2]. In a state
  \<open>s\<close> reached from the initial state by any events, the zoom lies in [0.1, 5], a zoom-in click
  leaves it in [0.2, 2] and a zoom-out click in [0.5, 4.9].
\<close>

theorem C9_zoom_ranges:
  "(ctrlKey e \<or> metaKey e \<or> interactionMode c = pan \<longrightarrow>
      0.1 \<le> zoom (handleWheel (Some r) e c) \<and> zoom (handleWheel (Some r) e c) \<le> 5)
   \<and> zoom (toolbarZoomIn c) \<le> 2
   \<and> 0.5 \<le> zoom (toolbarZoomOut c)
   \<and> (0.4 \<le> zoom c \<longrightarrow> 0.5 \<le> zoom (toolbarZoomIn c))
   \<and> (zoom c \<le> 2.1 \<longrightarrow> zoom (toolbarZoomOut c) \<le> 2)
   \<and> (s = run gen (initialCanvas mt ents rels ro) evs \<longrightarrow>
        0.1 \<le> zoom s \<and> zoom s \<le> 5
        \<and> 0.2 \<le> zoom (toolbarZoomIn s) \<and> zoom (toolbarZoomOut s) \<le> 4.9)"
proof -
  have local: "(ctrlKey e \<or> metaKey e \<or> interactionMode c = pan \<longrightarrow>
      0.1 \<le> zoom (handleWheel (Some r) e c) \<and> zoom (handleWheel (Some r) e c) \<le> 5)
   \<and> zoom (toolbarZoomIn c) \<le> 2
   \<and> 0.5 \<le> zoom (toolbarZoomOut c)
   \<and> (0.4 \<le> zoom c \<longrightarrow> 0.5 \<le> zoom (toolbarZoomIn c))
   \<and> (zoom c \<le> 2.1 \<longrightarrow> zoom (toolbarZoomOut c) \<le> 2)"
    by (simp add: handleWheel_def Let_def toolbarZoomIn_def toolbarZoomOut_def)
  have reach: "s = run gen (initialCanvas mt ents rels ro) evs \<longrightarrow>
        0.1 \<le> zoom s \<and> zoom s \<le> 5
        \<and> 0.2 \<le> zoom (toolbarZoomIn s) \<and> zoom (toolbarZoomOut s) \<le> 4.9"
    using reachable_zoom_range[of gen mt ents rels ro evs]
    by (auto simp add: toolbarZoomIn_def toolbarZoomOut_def max_def min_def)
  from local reach show ?thesis by blast
qed

theorem C9_zoom_ranges_witness:
  "ctrlKey (ctrlWheel 300 200 (- 2))
   \<and> 0.4 \<le> zoom mockCanvas \<and> zoom mockCanvas \<le> 2.1
   \<and> 0.1 \<le> zoom (handleWheel (Some originRect) (ctrlWheel 300 200 (- 2)) mockCanvas)
   \<and> zoom (handleWheel (Some originRect) (ctrlWheel 300 200 (- 2)) mockCanvas) \<le> 5
   \<and> 0.5 \<le> zoom (toolbarZoomIn mockCanvas) \<and> zoom (toolbarZoomIn mockCanvas) \<le> 2
   \<and> 0.5 \<le> zoom (toolbarZoomOut mockCanvas) \<and> zoom (toolbarZoomOut mockCanvas) \<le> 2
   \<and> 0.2 \<le> zoom (toolbarZoomIn (run exampleIds mockCanvas
                 [Wheel (Some originRect) (ctrlWheel 300 200 5000)]))
   \<and> zoom (toolbarZoomOut (run exampleIds mockCanvas
                 [Wheel (Some originRect) (ctrlWheel 300 200 5000)])) \<le> 4.9"
proof -
  have h1: "ctrlKey (ctrlWheel 300 200 (- 2))" by (simp add: ctrlWheel_def)
  have h2: "0.4 \<le> zoom mockCanvas \<and> zoom mockCanvas \<le> 2.1"
    by (simp add: mockCanvas_def initialCanvas_def)
  have h3: "run exampleIds mockCanvas [Wheel (Some originRect) (ctrlWheel 300 200 5000)]
              = run exampleIds (initialCanvas LOGICAL [mockE1, mockE2] [mockR1] False)
                  [Wheel (Some originRect) (ctrlWheel 300 200 5000)]"
    by (simp add: mockCanvas_def)
  show ?thesis
    using h1 h2 h3
      C9_zoom_ranges[of "ctrlWheel 300 200 (- 2)" mockCanvas originRect
        "run exampleIds mockCanvas [Wheel (Some originRect) (ctrlWheel 300 200 5000)]"
        exampleIds LOGICAL "[mockE1, mockE2]" "[mockR1]" False
        "[Wheel (Some originRect) (ctrlWheel 300 200 5000)]"]
    by simp
qed

lemma wheel_in_saturates: "(5::real) \<le> 1.001 ^ 5000"
  using Bernoulli_inequality[of "0.001::real" 5000] by simp

text \<open>
  C9 as stated fails: from the initial state, one wheel zoom-in with \<^verbatim>\<open>deltaY = -5000\<close> saturates
  the zoom at 5, and a click on the zoom-out button then leaves 4.9, outside [0.5, 2].
\<close>

theorem C9_toolbar_range_counterexample:
  "\<not> (zoom (run exampleIds mockCanvas
               [Wheel (Some originRect) (ctrlWheel 300 200 (- 5000)), ZoomOutClick]) \<le> 2)"
proof -
  have "zoom (handleWheel (Some originRect) (ctrlWheel 300 200 (- 5000)) mockCanvas) = 5"
    using wheel_in_saturates
    by (simp add: handleWheel_def ctrlWheel_def mockCanvas_def initialCanvas_def Let_def)
  then show ?thesis
    by (simp add: run_def toolbarZoomOut_def)
qed

section \<open>Deleting entities and relationships\<close>

text \<open>
  C2. Deleting a non-empty selection (the canvas not being read-only) leaves no relationship
  whose source or target is a selected id, and exactly the entities whose ids were not selected,
  in their order.
\<close>

theorem C2_delete_prunes:
  assumes "\<not> readOnly c" and "selectedEntityIds c \<noteq> {}"
      and "c' = handleDeleteSelectedEntities c c"
  shows "(\<forall>r \<in> set (relationships c').
            sourceId r \<notin> selectedEntityIds c \<and> targetId r \<notin> selectedEntityIds c)
       \<and> entities c' = filter (\<lambda>e. ent_id e \<notin> selectedEntityIds c) (entities c)
       \<and> set (entities c') = {e \<in> set (entities c). ent_id e \<notin> selectedEntityIds c}
       \<and> set (relationships c') \<subseteq> set (relationships c)"
  using assms
  by (auto simp add: handleDeleteSelectedEntities_def onEntitiesChange_def
        onRelationshipsChange_def Let_def)

theorem C2_delete_prunes_witness:
  "\<not> readOnly deleteExample \<and> selectedEntityIds deleteExample \<noteq> {}
   \<and> entities (handleDeleteSelectedEntities deleteExample deleteExample) = [mockE2]
   \<and> relationships (handleDeleteSelectedEntities deleteExample deleteExample) = []"
proof -
  have h1: "\<not> readOnly deleteExample" by (simp add: deleteExample_fields)
  have h2: "selectedEntityIds deleteExample \<noteq> {}" by (simp add: deleteExample_fields)
  have r: "relationships (handleDeleteSelectedEntities deleteExample deleteExample) = []"
    by (simp add: handleDeleteSelectedEntities_def onEntitiesChange_def
          onRelationshipsChange_def Let_def deleteExample_fields mock_ids)
  show ?thesis
    using h1 h2 r C2_delete_prunes[OF h1 h2 refl]
    by (simp add: deleteExample_fields mock_ids)
qed

text \<open>
  The delete calls \<^verbatim>\<open>onRelationshipsChange\<close> and then \<^verbatim>\<open>onEntitiesChange\<close>. Applied in turn to the
  host's model, the two updates leave the model with both collections filtered. Which model
  values the host shows in between is decided by how it batches the two updates.
\<close>

lemma delete_commits:
  assumes "\<not> readOnly c" and "selectedEntityIds c \<noteq> {}"
      and "pruned = filter (\<lambda>r. sourceId r \<notin> selectedEntityIds c
                               \<and> targetId r \<notin> selectedEntityIds c) (relationships c)"
      and "kept = filter (\<lambda>e. ent_id e \<notin> selectedEntityIds c) (entities c)"
      and "c' = handleDeleteSelectedEntities c c"
  shows "commits c' = commits c @ [RelationshipsUpdate pruned, EntitiesUpdate kept]
       \<and> foldl (\<lambda>m u. updateSelectedModel u m) m (drop (length (commits c)) (commits c'))
           = \<lparr>dm_entities = kept, dm_relationships = pruned\<rparr>"
proof -
  have com: "commits c' = commits c @ [RelationshipsUpdate pruned, EntitiesUpdate kept]"
    using assms
    by (simp add: handleDeleteSelectedEntities_def onEntitiesChange_def
          onRelationshipsChange_def Let_def)
  then show ?thesis by simp
qed

text \<open>
  C10. Deleting the relationship with id \<open>i\<close> keeps exactly the relationships whose id is not
  \<open>i\<close>, unchanged and in order, sends that list as one commit, leaves the entity collection and
  the entity selection alone, and clears the relationship selection if it was \<open>i\<close>.
\<close>

theorem C10_delete_rel_frame:
  assumes "c' = handleDeleteRel i c c"
  shows "relationships c' = filter (\<lambda>r. rel_id r \<noteq> i) (relationships c)
       \<and> (\<forall>r \<in> set (relationships c'). rel_id r \<noteq> i)
       \<and> (\<forall>r \<in> set (relationships c). rel_id r \<noteq> i \<longrightarrow> r \<in> set (relationships c'))
       \<and> entities c' = entities c
       \<and> commits c' = commits c @ [RelationshipsUpdate (relationships c')]
       \<and> selectedRelId c' = (if selectedRelId c = Some i then None else selectedRelId c)
       \<and> selectedEntityIds c' = selectedEntityIds c"
  using assms
  by (auto simp add: handleDeleteRel_def onRelationshipsChange_def Let_def)

theorem C10_delete_rel_frame_witness:
  "relationships (handleDeleteRel ''r1'' (mockCanvas\<lparr>selectedRelId := Some ''r1''\<rparr>)
                    (mockCanvas\<lparr>selectedRelId := Some ''r1''\<rparr>)) = []
   \<and> entities (handleDeleteRel ''r1'' (mockCanvas\<lparr>selectedRelId := Some ''r1''\<rparr>)
                    (mockCanvas\<lparr>selectedRelId := Some ''r1''\<rparr>)) = [mockE1, mockE2]
   \<and> selectedRelId (handleDeleteRel ''r1'' (mockCanvas\<lparr>selectedRelId := Some ''r1''\<rparr>)
                    (mockCanvas\<lparr>selectedRelId := Some ''r1''\<rparr>)) = None"
  using C10_delete_rel_frame[OF refl, of "''r1''" "mockCanvas\<lparr>selectedRelId := Some ''r1''\<rparr>"]
  by (simp add: mockCanvas_def initialCanvas_def mock_ids)

section \<open>Marquee selection\<close>

lemma isOverlapping_iff:
  "isOverlapping box rect \<longleftrightarrow>
     rx rect \<le> max (startX box) (currentX box)
   \<and> min (startX box) (currentX box) \<le> rx rect + rw rect
   \<and> ry rect \<le> max (startY box) (currentY box)
   \<and> min (startY box) (currentY box) \<le> ry rect + rh rect"
  by (simp add: isOverlapping_def Let_def not_less)

lemma interval_meet:
  fixes a b c d :: real
  assumes "a \<le> b" and "c \<le> d"
  shows "(\<exists>x. a \<le> x \<and> x \<le> b \<and> c \<le> x \<and> x \<le> d) \<longleftrightarrow> (c \<le> b \<and> a \<le> d)"
proof
  assume "\<exists>x. a \<le> x \<and> x \<le> b \<and> c \<le> x \<and> x \<le> d"
  then show "c \<le> b \<and> a \<le> d" by auto
next
  assume h: "c \<le> b \<and> a \<le> d"
  have "a \<le> max a c \<and> max a c \<le> b \<and> c \<le> max a c \<and> max a c \<le> d"
    using assms h by simp
  then show "\<exists>x. a \<le> x \<and> x \<le> b \<and> c \<le> x \<and> x \<le> d" by blast
qed

text \<open>
  For a box of non-negative width and height the test is the intersection of two closed
  rectangles: they share a point in each coordinate.
\<close>

lemma isOverlapping_common_point:
  assumes "0 \<le> rw rect" and "0 \<le> rh rect"
  shows "isOverlapping box rect \<longleftrightarrow>
           (\<exists>x. min (startX box) (currentX box) \<le> x \<and> x \<le> max (startX box) (currentX box)
                \<and> rx rect \<le> x \<and> x \<le> rx rect + rw rect)
         \<and> (\<exists>y. min (startY box) (currentY box) \<le> y \<and> y \<le> max (startY box) (currentY box)
                \<and> ry rect \<le> y \<and> y \<le> ry rect + rh rect)"
proof -
  have x: "min (startX box) (currentX box) \<le> max (startX box) (currentX box)" by simp
  have y: "min (startY box) (currentY box) \<le> max (startY box) (currentY box)" by simp
  have rx: "rx rect \<le> rx rect + rw rect" using assms by simp
  have ry: "ry rect \<le> ry rect + rh rect" using assms by simp
  show ?thesis
    unfolding isOverlapping_iff interval_meet[OF x rx] interval_meet[OF y ry]
    by blast
qed

lemma marquee_fold:
  "foldl (\<lambda>acc ent. if P ent then insert (ent_id ent) acc else acc) sel es
     = sel \<union> {ent_id ent |ent. ent \<in> set es \<and> P ent}"
  by (induction es arbitrary: sel) auto

text \<open>
  C4. Releasing the pointer at the end of a marquee gesture selects the previous selection
  together with the ids of the entities whose box \<open>(rx, ry, rw, rh)\<close> meets the rectangle between
  the minimum and the maximum of the marquee's two corners, \<open>[x1, x2] \<times> [y1, y2]\<close>: the box does
  not start right of \<open>x2\<close> or below \<open>y2\<close> and does not end left of \<open>x1\<close> or above \<open>y1\<close>. Nothing is
  removed from the selection.
\<close>

theorem C4_marquee_union:
  assumes "dragState c = Some ds" and "ds_type ds = drag_selection"
      and "selectionBox c = Some box"
      and "x1 = min (startX box) (currentX box)" and "x2 = max (startX box) (currentX box)"
      and "y1 = min (startY box) (currentY box)" and "y2 = max (startY box) (currentY box)"
      and "B = getEntityRect (modelType c) (searchTerm c)"
  shows "selectedEntityIds (handleMouseUp c)
           = selectedEntityIds c \<union>
             {ent_id ent |ent. ent \<in> set (entities c)
                \<and> rx (B ent) \<le> x2 \<and> x1 \<le> rx (B ent) + rw (B ent)
                \<and> ry (B ent) \<le> y2 \<and> y1 \<le> ry (B ent) + rh (B ent)}
       \<and> selectedEntityIds c \<subseteq> selectedEntityIds (handleMouseUp c)"
proof -
  have "selectedEntityIds (handleMouseUp c)
          = selectedEntityIds c \<union>
            {ent_id ent |ent. ent \<in> set (entities c) \<and> isOverlapping box (B ent)}"
    using assms(1-3) by (simp add: handleMouseUp_def marquee_fold Let_def assms(8))
  then show ?thesis
    by (auto simp add: isOverlapping_iff assms(4-7))
qed

theorem C4_marquee_union_witness:
  "dragState marqueeExample = Some \<lparr>ds_type = drag_selection, startMouseX = 100, startMouseY = 50,
       initialPositions = None, startOffset = None, entityId = None, startW = None, startH = None\<rparr>
   \<and> selectionBox marqueeExample = Some \<lparr>startX = 100, startY = 50, currentX = 200, currentY = 150\<rparr>
   \<and> map ent_id (entities marqueeExample) = [''c1'', ''c2'', ''c3'']
   \<and> selectedEntityIds marqueeExample = {''c3''}
   \<and> selectedEntityIds (handleMouseUp marqueeExample) = {''c1'', ''c3''}"
proof -
  let ?B = "getEntityRect CONCEPTUAL []"
  have hit: "{ent_id ent |ent. ent \<in> set [mockC1, mockC2, mockC3]
                \<and> rx (?B ent) \<le> 200 \<and> 100 \<le> rx (?B ent) + rw (?B ent)
                \<and> ry (?B ent) \<le> 150 \<and> 50 \<le> ry (?B ent) + rh (?B ent)} = {''c1''}"
    by (auto simp add: concept_boxes concept_ids intro!: exI[of _ mockC1])
  have sel: "ds_type \<lparr>ds_type = drag_selection, startMouseX = 100, startMouseY = 50,
       initialPositions = None, startOffset = None, entityId = None, startW = None,
       startH = None\<rparr> = drag_selection"
    by simp
  have x1: "(100::real) = min (startX \<lparr>startX = 100, startY = 50, currentX = 200, currentY = 150\<rparr>)
                               (currentX \<lparr>startX = 100, startY = 50, currentX = 200, currentY = 150\<rparr>)"
    and x2: "(200::real) = max (startX \<lparr>startX = 100, startY = 50, currentX = 200, currentY = 150\<rparr>)
                               (currentX \<lparr>startX = 100, startY = 50, currentX = 200, currentY = 150\<rparr>)"
    and y1: "(50::real) = min (startY \<lparr>startX = 100, startY = 50, currentX = 200, currentY = 150\<rparr>)
                               (currentY \<lparr>startX = 100, startY = 50, currentX = 200, currentY = 150\<rparr>)"
    and y2: "(150::real) = max (startY \<lparr>startX = 100, startY = 50, currentX = 200, currentY = 150\<rparr>)
                               (currentY \<lparr>startX = 100, startY = 50, currentX = 200, currentY = 150\<rparr>)"
    by simp_all
  have "selectedEntityIds (handleMouseUp marqueeExample) = {''c3''} \<union> {''c1''}"
    using C4_marquee_union[OF marqueeExample_state(1) sel marqueeExample_state(2) x1 x2 y1 y2 refl]
    by (simp only: marqueeExample_state(3-6) hit)
  then show ?thesis
    by (simp add: marqueeExample_state insert_commute concept_ids)
qed

section \<open>Dragging and resizing\<close>

lemma capture_foldl:
  "map_of (foldl (\<lambda>m n. assignKey (ent_id n) \<lparr>pt_x = ent_x n, pt_y = ent_y n\<rparr> m) m0 ns)
     = map_of m0 ++ map_of (rev (map posOf (filter (\<lambda>n. ent_id n \<noteq> ''__proto__'') ns)))"
  by (induction ns arbitrary: m0) (simp_all add: posOf_def assignKey_def update_conv')

lemma capturePositions_map_of:
  "map_of (capturePositions ns)
     = map_of (rev (map posOf (filter (\<lambda>n. ent_id n \<noteq> ''__proto__'') ns)))"
  by (simp add: capturePositions_def capture_foldl)

lemma capturePositions_selected:
  assumes "distinct (map ent_id es)" and "e \<in> set es" and "ent_id e \<in> S"
      and "ent_id e \<noteq> ''__proto__''"
  shows "map_of (capturePositions (filter (\<lambda>n. ent_id n \<in> S) es)) (ent_id e)
           = Some \<lparr>pt_x = ent_x e, pt_y = ent_y e\<rparr>"
proof -
  let ?ns = "filter (\<lambda>n. ent_id n \<noteq> ''__proto__'') (filter (\<lambda>n. ent_id n \<in> S) es)"
  have fst: "map fst (map posOf ?ns) = map ent_id ?ns"
    by (simp add: posOf_def comp_def)
  have "distinct (map ent_id ?ns)"
    using assms(1) by (simp add: distinct_map_filter)
  then have d: "distinct (map fst (rev (map posOf ?ns)))"
    using fst by (simp add: rev_map[symmetric] del: map_map)
  have "posOf e \<in> set (rev (map posOf ?ns))"
    using assms(2,3,4) by simp
  then show ?thesis
    using d by (simp add: capturePositions_map_of posOf_def del: set_rev set_map map_map)
qed

lemma capturePositions_unselected:
  assumes "i \<notin> S"
  shows "map_of (capturePositions (filter (\<lambda>n. ent_id n \<in> S) es)) i = None"
  using assms by (auto simp add: capturePositions_map_of map_of_eq_None_iff posOf_def)

lemma capturePositions_keys:
  "map_of (capturePositions ns) k \<noteq> None \<Longrightarrow> k \<in> ent_id ` set ns"
  by (auto simp add: capturePositions_map_of map_of_eq_None_iff posOf_def image_iff)

lemma map_of_moved:
  "map_of (map (\<lambda>(i, init). (i, f init)) al) k = map_option f (map_of al k)"
  by (induction al) auto

text \<open>
  While a drag is active every executed move frame replaces the overlay and nothing else, so after
  any number of frames the overlay is the one of the last frame.
\<close>

lemma moves_only_touch_overlay:
  assumes step: "\<And>u m. handleMouseMove rect m (c1\<lparr>dragUpdates := u\<rparr>) = c1\<lparr>dragUpdates := g m\<rparr>"
  shows "foldl (\<lambda>s m. handleMouseMove rect m s) c1 (earlier @ [move]) = c1\<lparr>dragUpdates := g move\<rparr>"
proof -
  have inv: "\<exists>u'. foldl (\<lambda>s m. handleMouseMove rect m s) (c1\<lparr>dragUpdates := u\<rparr>) ms
                = c1\<lparr>dragUpdates := u'\<rparr>" for u ms
  proof (induction ms arbitrary: u)
    case Nil
    then show ?case by auto
  next
    case (Cons m ms)
    then show ?case by (simp add: step)
  qed
  have "c1 = c1\<lparr>dragUpdates := dragUpdates c1\<rparr>" by simp
  with inv[of "dragUpdates c1" earlier]
  obtain u' where "foldl (\<lambda>s m. handleMouseMove rect m s) c1 earlier = c1\<lparr>dragUpdates := u'\<rparr>"
    by auto
  then show ?thesis by (simp add: step)
qed

lemma spread_move:
  "spread e \<lparr>patch_x = Some a, patch_y = Some b, patch_width = None, patch_height = None\<rparr>
     = e\<lparr>ent_x := a, ent_y := b\<rparr>"
  by (simp add: spread_def)

lemma spread_resize:
  "spread e \<lparr>patch_x = None, patch_y = None, patch_width = Some a, patch_height = Some b\<rparr>
     = e\<lparr>ent_width := Some a, ent_height := Some b\<rparr>"
  by (simp add: spread_def)

text \<open>
  C5, amended. An entity drag is a press on entity \<open>i\<close>, one or more executed move frames and the
  release; \<open>(dx, dy) = (pointer at the last frame - pointer at the press) / zoom\<close>. The entities
  that move are: after a press without Shift, Ctrl or Meta, the whole selection if \<open>i\<close> was in it
  and \<open>i\<close> alone otherwise; after a press with one of these keys, the selection with \<open>i\<close>
  toggled, so \<open>i\<close> itself moves only if it was not selected before. The release commits, in one
  commit, the press position plus \<open>(dx, dy)\<close> for every entity that moves and leaves every other
  entity as it was; afterwards the overlay \<^verbatim>\<open>dragUpdates\<close> is empty, no drag is active and the
  entities that moved are the selection. The entities have distinct ids, none of them
  \<^verbatim>\<open>__proto__\<close>; the canvas is editable, in select mode, not connecting, and the zoom is not zero.
\<close>

theorem C5_drag_commit:
  assumes ro: "\<not> readOnly c"
      and mode: "interactionMode c = select" "\<not> isSpacePressed c"
      and conn: "connectingSource c = None"
      and dist: "distinct (map ent_id (entities c))"
      and noproto: "''__proto__'' \<notin> ent_id ` set (entities c)"
      and zm: "zoom c \<noteq> 0"
      and c1: "c1 = handleEntityMouseDown gen down i c"
      and c2: "c2 = foldl (\<lambda>s m. handleMouseMove rect m s) c1 (earlier @ [move])"
      and c3: "c3 = handleMouseUp c2"
      and dx: "dx = (clientX move - clientX down) / zoom c"
      and dy: "dy = (clientY move - clientY down) / zoom c"
      and sel: "sel = selectedEntityIds c"
      and moved: "moved = (if shiftKey down \<or> ctrlKey down \<or> metaKey down
                           then (if i \<in> sel then sel - {i} else insert i sel)
                           else (if i \<in> sel then sel else {i}))"
  shows "entities c3 = map (\<lambda>e. if ent_id e \<in> moved
                                  then e\<lparr>ent_x := ent_x e + dx, ent_y := ent_y e + dy\<rparr>
                                  else e) (entities c)
       \<and> (\<forall>k < length (entities c).
             ent_id (entities c ! k) = i
             \<and> (i \<notin> sel \<or> \<not> (shiftKey down \<or> ctrlKey down \<or> metaKey down))
             \<longrightarrow> ent_x (entities c3 ! k) = ent_x (entities c ! k) + dx
               \<and> ent_y (entities c3 ! k) = ent_y (entities c ! k) + dy)
       \<and> dragUpdates c3 = []
       \<and> dragState c3 = None
       \<and> selectedEntityIds c3 = moved
       \<and> (if \<exists>e \<in> set (entities c). ent_id e \<in> moved
          then commits c3 = commits c @ [EntitiesUpdate (entities c3)]
          else commits c3 = commits c)"
proof -
  have cap: "moved = clickSelection down i (selectedEntityIds c)"
    by (simp add: moved sel clickSelection_def)
  define ip where "ip = capturePositions (filter (\<lambda>n. ent_id n \<in> moved) (entities c))"
  define mv where "mv = (\<lambda>init :: Point. \<lparr>patch_x = Some (pt_x init + dx), patch_y = Some (pt_y init + dy),
                                   patch_width = None, patch_height = None\<rparr>)"
  define upd where "upd = map (\<lambda>(k, init). (k, mv init)) ip"
  have s1: "c1 = c\<lparr>selectedEntityIds := moved,
                   dragState := Some \<lparr>ds_type = drag_entity,
                      startMouseX = clientX down, startMouseY = clientY down,
                      initialPositions = Some ip, startOffset = None,
                      entityId = None, startW = None, startH = None\<rparr>,
                   selectedRelId := None, contextMenu := None\<rparr>"
    using ro mode conn by (simp add: c1 handleEntityMouseDown_def Let_def cap ip_def)
  have "handleMouseMove rect m (c1\<lparr>dragUpdates := u\<rparr>)
          = c1\<lparr>dragUpdates := map (\<lambda>(k, init). (k,
               \<lparr>patch_x = Some (pt_x init + (clientX m - clientX down) / zoom c),
                patch_y = Some (pt_y init + (clientY m - clientY down) / zoom c),
                patch_width = None, patch_height = None\<rparr>)) ip\<rparr>" for u m
    using ro by (simp add: s1 handleMouseMove_def Let_def)
  then have s2: "c2 = c1\<lparr>dragUpdates := upd\<rparr>"
    unfolding c2 upd_def mv_def dx dy by (rule moves_only_touch_overlay)
  have lk: "\<And>k. map_of upd k = map_option mv (map_of ip k)"
    unfolding upd_def by (rule map_of_moved)
  have np: "\<And>e. e \<in> set (entities c) \<Longrightarrow> ent_id e \<noteq> ''__proto__''"
    using noproto by (metis imageI)
  have look: "\<And>e. e \<in> set (entities c) \<Longrightarrow>
      (case map_of upd (ent_id e) of Some p \<Rightarrow> spread e p | None \<Rightarrow> e)
        = (if ent_id e \<in> moved then e\<lparr>ent_x := ent_x e + dx, ent_y := ent_y e + dy\<rparr> else e)"
    using dist np
    by (simp add: lk mv_def ip_def capturePositions_selected capturePositions_unselected
          spread_move)
  have ents: "map (\<lambda>e. case map_of upd (ent_id e) of Some p \<Rightarrow> spread e p | None \<Rightarrow> e)
                  (entities c)
      = map (\<lambda>e. if ent_id e \<in> moved
                  then e\<lparr>ent_x := ent_x e + dx, ent_y := ent_y e + dy\<rparr> else e) (entities c)"
    using look by (simp cong: map_cong)
  have main: "entities c3 = map (\<lambda>e. if ent_id e \<in> moved
                                  then e\<lparr>ent_x := ent_x e + dx, ent_y := ent_y e + dy\<rparr>
                                  else e) (entities c)
       \<and> dragUpdates c3 = []
       \<and> dragState c3 = None
       \<and> selectedEntityIds c3 = moved
       \<and> (if \<exists>e \<in> set (entities c). ent_id e \<in> moved
          then commits c3 = commits c @ [EntitiesUpdate (entities c3)]
          else commits c3 = commits c)"
  proof (cases "upd = []")
    case True
    then have ipe: "ip = []" by (simp add: upd_def)
    have nc: "\<And>e. e \<in> set (entities c) \<Longrightarrow> ent_id e \<notin> moved"
    proof
      fix e assume e: "e \<in> set (entities c)" and "ent_id e \<in> moved"
      then have "map_of ip (ent_id e) \<noteq> None"
        using dist np by (simp add: ip_def capturePositions_selected)
      with ipe show False by simp
    qed
    from nc have none: "\<not> (\<exists>e \<in> set (entities c). ent_id e \<in> moved)"
      by blast
    then have "map (\<lambda>e. if ent_id e \<in> moved
                  then e\<lparr>ent_x := ent_x e + dx, ent_y := ent_y e + dy\<rparr> else e) (entities c)
               = entities c"
      by (simp add: map_idI)
    with True none show ?thesis
      by (simp add: c3 s2 s1 handleMouseUp_def Let_def)
  next
    case False
    then have "ip \<noteq> []" by (simp add: upd_def)
    then have "map_of ip \<noteq> Map.empty"
      by (simp add: map_of_eq_empty_iff)
    then obtain k where "map_of ip k \<noteq> None"
      by (auto simp add: fun_eq_iff)
    then have "k \<in> ent_id ` set (filter (\<lambda>n. ent_id n \<in> moved) (entities c))"
      unfolding ip_def by (rule capturePositions_keys)
    then have some: "\<exists>e \<in> set (entities c). ent_id e \<in> moved"
      by auto
    from False show ?thesis
      using ents some by (simp add: c3 s2 s1 handleMouseUp_def Let_def onEntitiesChange_def)
  qed
  have pressed: "\<forall>k < length (entities c).
             ent_id (entities c ! k) = i
             \<and> (i \<notin> sel \<or> \<not> (shiftKey down \<or> ctrlKey down \<or> metaKey down))
             \<longrightarrow> ent_x (entities c3 ! k) = ent_x (entities c ! k) + dx
               \<and> ent_y (entities c3 ! k) = ent_y (entities c ! k) + dy"
  proof (intro allI impI)
    fix k assume k: "k < length (entities c)"
      and h: "ent_id (entities c ! k) = i
              \<and> (i \<notin> sel \<or> \<not> (shiftKey down \<or> ctrlKey down \<or> metaKey down))"
    then have "i \<in> moved" by (auto simp add: moved)
    with h have "ent_id (entities c ! k) \<in> moved" by simp
    then show "ent_x (entities c3 ! k) = ent_x (entities c ! k) + dx
               \<and> ent_y (entities c3 ! k) = ent_y (entities c ! k) + dy"
      using k main by simp
  qed
  from main pressed show ?thesis by blast
qed

theorem C5_drag_commit_witness:
  "\<not> readOnly (mockCanvas\<lparr>selectedEntityIds := {''e1'', ''e2''}\<rparr>)
   \<and> zoom (mockCanvas\<lparr>selectedEntityIds := {''e1'', ''e2''}\<rparr>) \<noteq> 0
   \<and> distinct (map ent_id (entities (mockCanvas\<lparr>selectedEntityIds := {''e1'', ''e2''}\<rparr>)))
   \<and> ''__proto__'' \<notin> ent_id ` set (entities (mockCanvas\<lparr>selectedEntityIds := {''e1'', ''e2''}\<rparr>))
   \<and> map (\<lambda>e. (ent_id e, ent_x e, ent_y e))
         (entities (mockCanvas\<lparr>selectedEntityIds := {''e1'', ''e2''}\<rparr>))
       = [(''e1'', 100, 100), (''e2'', 500, 150)]
   \<and> map (\<lambda>e. (ent_id e, ent_x e, ent_y e)) (entities multiDragExample)
       = [(''e1'', 150, 80), (''e2'', 550, 130)]
   \<and> dragUpdates multiDragExample = []
   \<and> dragState multiDragExample = None"
proof -
  let ?c = "mockCanvas\<lparr>selectedEntityIds := {''e1'', ''e2''}\<rparr>"
  have h1: "\<not> readOnly ?c" by (simp add: mockCanvas_fields)
  have h2: "interactionMode ?c = select" by (simp add: mockCanvas_fields)
  have h3: "\<not> isSpacePressed ?c" by (simp add: mockCanvas_fields)
  have h4: "connectingSource ?c = None" by (simp add: mockCanvas_fields)
  have h5: "distinct (map ent_id (entities ?c))"
    by (simp add: mockCanvas_fields mock_ids)
  have h6: "''__proto__'' \<notin> ent_id ` set (entities ?c)"
    by (simp add: mockCanvas_fields mock_ids)
  have h7: "zoom ?c \<noteq> 0" by (simp add: mockCanvas_fields)
  have ex: "multiDragExample = handleMouseUp
               (foldl (\<lambda>s m. handleMouseMove (Some originRect) m s)
                  (handleEntityMouseDown exampleIds (mouseAt 120 130 False) ''e1'' ?c)
                  ([mouseAt 140 125 False] @ [mouseAt 170 110 False]))"
    by (simp add: multiDragExample_def run_def)
  have mvd: "{''e1'', ''e2''} =
      (if shiftKey (mouseAt 120 130 False) \<or> ctrlKey (mouseAt 120 130 False)
          \<or> metaKey (mouseAt 120 130 False)
       then (if ''e1'' \<in> selectedEntityIds ?c then selectedEntityIds ?c - {''e1''}
             else insert ''e1'' (selectedEntityIds ?c))
       else (if ''e1'' \<in> selectedEntityIds ?c then selectedEntityIds ?c else {''e1''}))"
    by (simp add: mouseAt_def)
  note inst = C5_drag_commit[OF h1 h2 h3 h4 h5 h6 h7 refl refl ex refl refl refl mvd]
  show ?thesis
    using h1 h5 h6 h7 inst
    by (simp add: mockCanvas_fields mock_ids mock_positions mouseAt_def)
qed

text \<open>
  C5 as stated fails: with both entities selected, a press on \<^verbatim>\<open>e1\<close> with Ctrl held followed by a
  drag of (50, -20) deselects \<^verbatim>\<open>e1\<close> and leaves it at (100, 100); only \<^verbatim>\<open>e2\<close> is moved.
\<close>

theorem C5_pressed_entity_counterexample:
  "map (\<lambda>e. (ent_id e, ent_x e, ent_y e)) (entities toggleDragExample)
     = [(''e1'', 100, 100), (''e2'', 550, 130)]"
  by (simp add: toggleDragExample_def run_def handleEntityMouseDown_def handleMouseMove_def
        handleMouseUp_def clickSelection_def capturePositions_def assignKey_def
        onEntitiesChange_def spread_def Let_def ctrlMouseAt_def mouseAt_def
        mockCanvas_def initialCanvas_def mockE1_def mockE2_def)

text \<open>
  C7. A resize gesture on the entity with id \<open>i\<close> (press on its handle, one or more executed move
  frames, release) commits width \<open>max 150 (w0 + dx)\<close> and height \<open>max 80 (h0 + dy)\<close>, where \<open>(w0, h0)\<close> is
  the size of the entity's box at the press and \<open>(dx, dy)\<close> the world delta of the pointer at
  the last frame; so the
  committed width is never below 150 and the committed height never below 80.
\<close>

theorem C7_resize_floor:
  assumes ro: "\<not> readOnly c"
      and mode: "interactionMode c = select" "\<not> isSpacePressed c"
      and found: "find (\<lambda>en. ent_id en = i) (entities c) = Some ent"
      and nonempty: "i \<noteq> []"
      and zm: "zoom c \<noteq> 0"
      and w0: "w0 = rw (getEntityRect (modelType c) (searchTerm c) ent)"
      and h0: "h0 = rh (getEntityRect (modelType c) (searchTerm c) ent)"
      and c1: "c1 = handleResizeMouseDown down i c"
      and c2: "c2 = foldl (\<lambda>s m. handleMouseMove rect m s) c1 (earlier @ [move])"
      and c3: "c3 = handleMouseUp c2"
      and dx: "dx = (clientX move - clientX down) / zoom c"
      and dy: "dy = (clientY move - clientY down) / zoom c"
  shows "entities c3 = map (\<lambda>e. if ent_id e = i
                                  then e\<lparr>ent_width := Some (max 150 (w0 + dx)),
                                         ent_height := Some (max 80 (h0 + dy))\<rparr>
                                  else e) (entities c)
       \<and> (\<forall>e \<in> set (entities c3). ent_id e = i \<longrightarrow>
              ent_width e = Some (max 150 (w0 + dx)) \<and> ent_height e = Some (max 80 (h0 + dy))
              \<and> 150 \<le> the (ent_width e) \<and> 80 \<le> the (ent_height e))
       \<and> commits c3 = commits c @ [EntitiesUpdate (entities c3)]
       \<and> dragUpdates c3 = []
       \<and> dragState c3 = None"
proof -
  define p where "p = \<lparr>patch_x = None, patch_y = None,
                        patch_width = Some (max 150 (w0 + dx)),
                        patch_height = Some (max 80 (h0 + dy))\<rparr>"
  have s1: "c1 = c\<lparr>dragState := Some \<lparr>ds_type = drag_resize,
                      startMouseX = clientX down, startMouseY = clientY down,
                      initialPositions = None, startOffset = None,
                      entityId = Some i, startW = Some w0, startH = Some h0\<rparr>\<rparr>"
    using mode found by (simp add: c1 handleResizeMouseDown_def Let_def w0 h0)
  have "handleMouseMove rect m (c1\<lparr>dragUpdates := u\<rparr>)
          = c1\<lparr>dragUpdates := [(i, \<lparr>patch_x = None, patch_y = None,
               patch_width = Some (max 150 (w0 + (clientX m - clientX down) / zoom c)),
               patch_height = Some (max 80 (h0 + (clientY m - clientY down) / zoom c))\<rparr>)]\<rparr>"
    for u m
    using ro nonempty by (simp add: s1 handleMouseMove_def Let_def orZero_def)
  then have s2: "c2 = c1\<lparr>dragUpdates := [(i, p)]\<rparr>"
    unfolding c2 p_def dx dy by (rule moves_only_touch_overlay)
  have ents: "map (\<lambda>e. case map_of [(i, p)] (ent_id e) of Some q \<Rightarrow> spread e q | None \<Rightarrow> e)
                  (entities c)
      = map (\<lambda>e. if ent_id e = i
                  then e\<lparr>ent_width := Some (max 150 (w0 + dx)),
                         ent_height := Some (max 80 (h0 + dy))\<rparr> else e) (entities c)"
    by (simp add: p_def spread_resize)
  have e3: "entities c3 = map (\<lambda>e. if ent_id e = i
                  then e\<lparr>ent_width := Some (max 150 (w0 + dx)),
                         ent_height := Some (max 80 (h0 + dy))\<rparr> else e) (entities c)"
    using ents by (simp add: c3 s2 s1 handleMouseUp_def Let_def onEntitiesChange_def)
  have rest: "commits c3 = commits c @ [EntitiesUpdate (entities c3)]
       \<and> dragUpdates c3 = [] \<and> dragState c3 = None"
    by (simp add: c3 s2 s1 handleMouseUp_def Let_def onEntitiesChange_def)
  have floor: "\<forall>e \<in> set (entities c3). ent_id e = i \<longrightarrow>
              ent_width e = Some (max 150 (w0 + dx)) \<and> ent_height e = Some (max 80 (h0 + dy))
              \<and> 150 \<le> the (ent_width e) \<and> 80 \<le> the (ent_height e)"
  proof (intro ballI impI)
    fix e assume "e \<in> set (entities c3)" and i: "ent_id e = i"
    then obtain e0 where "e = (if ent_id e0 = i
                  then e0\<lparr>ent_width := Some (max 150 (w0 + dx)),
                          ent_height := Some (max 80 (h0 + dy))\<rparr> else e0)"
      unfolding e3 by (auto simp only: set_map image_iff)
    with i have "e = e0\<lparr>ent_width := Some (max 150 (w0 + dx)),
                          ent_height := Some (max 80 (h0 + dy))\<rparr>"
      by (cases "ent_id e0 = i") simp_all
    then show "ent_width e = Some (max 150 (w0 + dx)) \<and> ent_height e = Some (max 80 (h0 + dy))
              \<and> 150 \<le> the (ent_width e) \<and> 80 \<le> the (ent_height e)"
      by simp
  qed
  show ?thesis by (rule conjI[OF e3 conjI[OF floor rest]])
qed

theorem C7_resize_floor_witness:
  "\<not> readOnly mockCanvas \<and> zoom mockCanvas \<noteq> 0
   \<and> find (\<lambda>en. ent_id en = ''e1'') (entities mockCanvas) = Some mockE1
   \<and> rw (getEntityRect LOGICAL [] mockE1) + (180 - 356) / zoom mockCanvas = 80
   \<and> map (\<lambda>e. (ent_id e, ent_width e, ent_height e)) (entities resizeExample)
       = [(''e1'', Some 150, Some 80), (''e2'', None, None)]
   \<and> dragUpdates resizeExample = []"
proof -
  have h1: "\<not> readOnly mockCanvas" by (simp add: mockCanvas_fields)
  have h2: "interactionMode mockCanvas = select" by (simp add: mockCanvas_fields)
  have h3: "\<not> isSpacePressed mockCanvas" by (simp add: mockCanvas_fields)
  have h4: "find (\<lambda>en. ent_id en = ''e1'') (entities mockCanvas) = Some mockE1"
    by (simp add: mockCanvas_fields mock_ids)
  have h5: "''e1'' \<noteq> []" by simp
  have h6: "zoom mockCanvas \<noteq> 0" by (simp add: mockCanvas_fields)
  have ex: "resizeExample = handleMouseUp
               (foldl (\<lambda>s m. handleMouseMove (Some originRect) m s)
                  (handleResizeMouseDown (mouseAt 356 172 False) ''e1'' mockCanvas)
                  ([mouseAt 300 170 False] @ [mouseAt 180 162 False]))"
    by (simp add: resizeExample_def run_def)
  note inst = C7_resize_floor[OF h1 h2 h3 h4 h5 h6 refl refl refl refl ex refl refl]
  show ?thesis
    using h1 h4 h6 inst
    by (simp add: mockCanvas_fields mock_ids mock_positions mock_boxes mouseAt_def)
qed

section \<open>Copy and paste\<close>

lemma regen_attr_ids:
  "length as = length js \<Longrightarrow>
     map attr_id (map (\<lambda>(a, j). a\<lparr>attr_id := gen j\<rparr>) (zip as js)) = map gen js"
  by (induction as js rule: list_induct2) simp_all

lemma idsOf_cloneItem:
  "idsOf (cloneItem gen k item) = map gen [k ..< Suc k + length (attributes item)]"
proof -
  have "map attr_id (attributes (cloneItem gen k item))
          = map gen [Suc k ..< Suc k + length (attributes item)]"
    by (simp add: cloneItem_def generateId_def regen_attr_ids del: map_map)
  moreover have "ent_id (cloneItem gen k item) = gen k"
    by (simp add: cloneItem_def generateId_def)
  moreover have "[k ..< Suc k + length (attributes item)]
                   = k # [Suc k ..< Suc k + length (attributes item)]"
    by (simp add: upt_conv_Cons del: upt_Suc)
  ultimately show ?thesis
    by (simp add: idsOf_def del: upt_Suc)
qed

lemma idsOf_pasteClones:
  "concat (map idsOf (pasteClones gen k items)) = map gen [k ..< k + idsUsed items]"
proof (induction items arbitrary: k)
  case Nil
  then show ?case by simp
next
  case (Cons item items)
  have "k + idsUsed (item # items) = (Suc k + length (attributes item)) + idsUsed items"
    by simp
  then have "[k ..< k + idsUsed (item # items)]
          = [k ..< Suc k + length (attributes item)]
            @ [Suc k + length (attributes item) ..< Suc k + length (attributes item) + idsUsed items]"
    using upt_add_eq_append[of k "Suc k + length (attributes item)" "idsUsed items"]
    by (simp add: ac_simps del: upt_Suc)
  then show ?case
    using Cons.IH[of "Suc k + length (attributes item)"]
    by (simp add: idsOf_cloneItem del: upt_Suc)
qed

lemma length_pasteClones: "length (pasteClones gen k items) = length items"
  by (induction items arbitrary: k) simp_all

lemma nth_pasteClones:
  "j < length items \<Longrightarrow>
     pasteClones gen k items ! j = cloneItem gen (k + idsUsed (take j items)) (items ! j)"
proof (induction items arbitrary: k j)
  case Nil
  then show ?case by simp
next
  case (Cons item items)
  then show ?case by (cases j) (simp_all add: ac_simps)
qed

lemma ent_ids_in_idsOf: "set (map ent_id es) \<subseteq> set (concat (map idsOf es))"
  by (auto simp add: idsOf_def)

lemma distinct_ent_ids:
  "distinct (concat (map idsOf es)) \<Longrightarrow> distinct (map ent_id es)"
proof (induction es)
  case Nil
  then show ?case by simp
next
  case (Cons e es)
  then show ?case using ent_ids_in_idsOf[of es] by (auto simp add: idsOf_def)
qed

text \<open>
  C3, amended. Pasting a non-empty clipboard of N entities appends N clones to the entity
  collection, in clipboard order, as one commit. Each clone is its clipboard source moved by
  (+20, +20), with \<^verbatim>\<open>_copy\<close> appended to its name and as many attributes as the source. With \<open>k\<close>
  calls of \<^verbatim>\<open>generateId\<close> made before the paste, clone \<open>j\<close> takes as id the result of the next call
  after those used by the clones before it, and its attributes take the results of the calls
  that follow, one each: no result is used twice, and the ids of all clones and their attributes
  are the results of the calls \<open>k, ..., k + idsUsed items - 1\<close> in order. The handler does not
  compare ids: the clone ids are pairwise distinct when these results are, and differ from every
  id present before when these results do. The clones become the selection.
\<close>

theorem C3_paste_clones:
  assumes ro: "\<not> readOnly c"
      and ev: "ctrlKey e \<or> metaKey e" "key e = ''v''"
      and cb: "clipboard c = Some items" "items \<noteq> []"
      and k: "k = nextId c"
      and c': "c' = handleKeyDown gen e c"
      and clones: "clones = drop (length (entities c)) (entities c')"
  shows "entities c' = entities c @ clones
       \<and> length clones = length items
       \<and> (\<forall>j < length items.
             ent_id (clones ! j) = gen (k + idsUsed (take j items))
           \<and> map attr_id (attributes (clones ! j))
               = map gen [Suc (k + idsUsed (take j items))
                            ..< Suc (k + idsUsed (take j items)) + length (attributes (items ! j))]
           \<and> ent_x (clones ! j) = ent_x (items ! j) + 20
           \<and> ent_y (clones ! j) = ent_y (items ! j) + 20
           \<and> ent_name (clones ! j) = ent_name (items ! j) @ ''_copy'')
       \<and> concat (map idsOf clones) = map gen [k ..< k + idsUsed items]
       \<and> (distinct (map gen [k ..< k + idsUsed items])
            \<longrightarrow> distinct (map ent_id clones) \<and> distinct (concat (map idsOf clones)))
       \<and> (set (map gen [k ..< k + idsUsed items]) \<inter> set (map ent_id (entities c)) = {}
            \<longrightarrow> set (map ent_id clones) \<inter> set (map ent_id (entities c)) = {})
       \<and> selectedEntityIds c' = set (map ent_id clones)
       \<and> commits c' = commits c @ [EntitiesUpdate (entities c @ clones)]"
proof -
  define pc where "pc = pasteClones gen k items"
  have kd: "handleKeyDown gen e c =
      (onEntitiesChange (entities c @ pc)
         ((if code e = ''Space'' \<and> \<not> repeat e then c\<lparr>isSpacePressed := True\<rparr> else c)
            \<lparr>selectedEntityIds := {}\<rparr>))
        \<lparr>selectedEntityIds := set (map ent_id pc), nextId := nextId c + idsUsed items\<rparr>"
    using ro ev cb by (auto simp add: handleKeyDown_def Let_def pc_def k)
  have ents: "entities c' = entities c @ pc"
    by (simp add: c' kd onEntitiesChange_def)
  then have cl: "clones = pc"
    by (simp add: clones)
  have ids: "concat (map idsOf pc) = map gen [k ..< k + idsUsed items]"
    by (simp add: pc_def idsOf_pasteClones)
  have d: "distinct (map gen [k ..< k + idsUsed items])
            \<longrightarrow> distinct (map ent_id pc) \<and> distinct (concat (map idsOf pc))"
    using ids distinct_ent_ids[of pc] by simp
  have disj: "set (map gen [k ..< k + idsUsed items]) \<inter> set (map ent_id (entities c)) = {}
            \<longrightarrow> set (map ent_id pc) \<inter> set (map ent_id (entities c)) = {}"
  proof
    assume unused: "set (map gen [k ..< k + idsUsed items]) \<inter> set (map ent_id (entities c)) = {}"
    have "set (map ent_id pc) \<subseteq> set (map gen [k ..< k + idsUsed items])"
      using ent_ids_in_idsOf[of pc] by (simp only: ids)
    with unused show "set (map ent_id pc) \<inter> set (map ent_id (entities c)) = {}" by blast
  qed
  have each: "\<forall>j < length items.
             ent_id (pc ! j) = gen (k + idsUsed (take j items))
           \<and> map attr_id (attributes (pc ! j))
               = map gen [Suc (k + idsUsed (take j items))
                            ..< Suc (k + idsUsed (take j items)) + length (attributes (items ! j))]
           \<and> ent_x (pc ! j) = ent_x (items ! j) + 20
           \<and> ent_y (pc ! j) = ent_y (items ! j) + 20
           \<and> ent_name (pc ! j) = ent_name (items ! j) @ ''_copy''"
  proof (intro allI impI)
    fix j assume j: "j < length items"
    let ?q = "k + idsUsed (take j items)"
    have n: "pc ! j = cloneItem gen ?q (items ! j)"
      using j by (simp add: pc_def nth_pasteClones)
    have "idsOf (cloneItem gen ?q (items ! j))
            = map gen [?q ..< Suc ?q + length (attributes (items ! j))]"
      by (rule idsOf_cloneItem)
    moreover have "[?q ..< Suc ?q + length (attributes (items ! j))]
                     = ?q # [Suc ?q ..< Suc ?q + length (attributes (items ! j))]"
      by (simp add: upt_conv_Cons del: upt_Suc)
    ultimately have a: "map attr_id (attributes (pc ! j))
               = map gen [Suc ?q ..< Suc ?q + length (attributes (items ! j))]"
      by (simp add: n idsOf_def del: upt_Suc)
    have b: "ent_id (pc ! j) = gen ?q \<and> ent_x (pc ! j) = ent_x (items ! j) + 20
           \<and> ent_y (pc ! j) = ent_y (items ! j) + 20
           \<and> ent_name (pc ! j) = ent_name (items ! j) @ ''_copy''"
      by (simp add: n cloneItem_def generateId_def del: upt_Suc)
    from a b show "ent_id (pc ! j) = gen ?q
           \<and> map attr_id (attributes (pc ! j))
               = map gen [Suc ?q ..< Suc ?q + length (attributes (items ! j))]
           \<and> ent_x (pc ! j) = ent_x (items ! j) + 20
           \<and> ent_y (pc ! j) = ent_y (items ! j) + 20
           \<and> ent_name (pc ! j) = ent_name (items ! j) @ ''_copy''"
      by simp
  qed
  have sel: "selectedEntityIds c' = set (map ent_id pc)"
    by (simp add: c' kd onEntitiesChange_def)
  have com: "commits c' = commits c @ [EntitiesUpdate (entities c @ pc)]"
    by (simp add: c' kd onEntitiesChange_def)
  have len: "length pc = length items"
    by (simp add: pc_def length_pasteClones)
  show ?thesis
    unfolding cl
    by (intro conjI ents len each ids d disj sel com)
qed

theorem C3_paste_clones_witness:
  "clipboard copyExample = Some [mockE1, mockE2]
   \<and> distinct (map exampleIds [nextId copyExample ..< nextId copyExample + idsUsed [mockE1, mockE2]])
   \<and> set (map exampleIds [nextId copyExample ..< nextId copyExample + idsUsed [mockE1, mockE2]])
        \<inter> set (map ent_id (entities copyExample)) = {}
   \<and> map (\<lambda>e. (ent_id e, ent_name e, ent_x e, ent_y e, map attr_id (attributes e)))
         (entities (handleKeyDown exampleIds (ctrlKeyPress ''v'') copyExample))
       = [(''e1'', ''User'', 100, 100, [''a1'']),
          (''e2'', ''Order'', 500, 150, [''a2'', ''a3'']),
          (''n'', ''User_copy'', 120, 120, [''nx'']),
          (''nxx'', ''Order_copy'', 520, 170, [''nxxx'', ''nxxxx''])]
   \<and> selectedEntityIds (handleKeyDown exampleIds (ctrlKeyPress ''v'') copyExample) = {''n'', ''nxx''}"
proof -
  let ?c' = "handleKeyDown exampleIds (ctrlKeyPress ''v'') copyExample"
  have h1: "\<not> readOnly copyExample" by (simp add: copyExample_state)
  have h2: "ctrlKey (ctrlKeyPress ''v'') \<or> metaKey (ctrlKeyPress ''v'')"
    by (simp add: ctrlKeyPress_def)
  have h3: "key (ctrlKeyPress ''v'') = ''v''" by (simp add: ctrlKeyPress_def)
  have h4: "[mockE1, mockE2] \<noteq> []" by simp
  have h5: "distinct (map exampleIds [nextId copyExample ..< nextId copyExample + idsUsed [mockE1, mockE2]])"
    by (simp add: copyExample_state(4) example_ids_fresh[simplified])
  have h6: "set (map exampleIds [nextId copyExample ..< nextId copyExample + idsUsed [mockE1, mockE2]])
        \<inter> set (map ent_id (entities copyExample)) = {}"
    by (simp add: copyExample_state(3,4) example_ids_fresh[simplified] mock_ids)
  note inst = C3_paste_clones[OF h1 h2 h3 copyExample_state(1) h4 refl refl refl]
  have ents: "entities ?c' = [mockE1, mockE2] @ pasteClones exampleIds 0 [mockE1, mockE2]"
    by (simp add: handleKeyDown_def ctrlKeyPress_def Let_def copyExample_state onEntitiesChange_def)
  have view: "map (\<lambda>e. (ent_id e, ent_name e, ent_x e, ent_y e, map attr_id (attributes e)))
         (entities ?c')
       = [(''e1'', ''User'', 100, 100, [''a1'']),
          (''e2'', ''Order'', 500, 150, [''a2'', ''a3'']),
          (''n'', ''User_copy'', 120, 120, [''nx'']),
          (''nxx'', ''Order_copy'', 520, 170, [''nxxx'', ''nxxxx''])]"
    unfolding ents
    by (simp add: cloneItem_def generateId_def exampleIds_def mockE1_def mockE2_def mockAttr_def
          upt_rec numeral_eq_Suc)
  have sel: "selectedEntityIds ?c' = {''n'', ''nxx''}"
  proof -
    from inst have "selectedEntityIds ?c'
        = set (map ent_id (drop (length (entities copyExample)) (entities ?c')))"
      by simp
    also have "\<dots> = {''n'', ''nxx''}"
      unfolding ents
      by (simp add: copyExample_state cloneItem_def generateId_def exampleIds_def mockE1_def)
    finally show ?thesis .
  qed
  show ?thesis
    using copyExample_state(1) h5 h6 view sel by simp
qed

text \<open>
  C3 as stated fails: the clone ids are as distinct as the results of \<^verbatim>\<open>generateId\<close>. With a source
  that returns the same identifier twice, pasting the two copied entities gives two clones with
  the same id.
\<close>

theorem C3_distinct_ids_counterexample:
  "map ent_id (entities (handleKeyDown stuckIds (ctrlKeyPress ''v'') copyExample))
     = [''e1'', ''e2'', ''n'', ''n'']"
  by (simp add: handleKeyDown_def ctrlKeyPress_def Let_def copyExample_state onEntitiesChange_def
        cloneItem_def generateId_def stuckIds_def mock_ids)

end
